theory Spec2Isabelle
  imports Main "HOL-Library.Word"
begin

section \<open>The FrankenMonitor of server/src/8sleep/frankenMonitor.ts\<close>

text \<open>
  The monitor polls the bed for a status snapshot, compares the tap entries of the new
  snapshot with the stored one and runs the behaviour configured for each changed gesture:
  a temperature step, an alarm snooze or a base preset cycle.

  Numbers of the source are JavaScript numbers; every number the monitor handles
  (temperatures, minutes, epoch milliseconds, base coordinates) is modelled as an
  unbounded \<open>int\<close>. Calls into other modules (the device command channel, the status
  update route, the base controller, the in-memory data base, the CBOR codec) are
  parameters of the model, collected in the record \<open>env\<close>: what such a call is given is
  appended to a list in the state, and whether it succeeds is read from \<open>env\<close>.
  A log entry is its level and the fixed part of its message.

  An \<open>async\<close> method is modelled twice. Run alone (\<open>snoozeAlarm\<close>,
  \<open>processGesture\<close>) it goes to its end, and its result says whether the promise is
  fulfilled or rejected. Started by the loop, which does not wait for it, it runs to its
  first \<open>await\<close> (\<open>processGestureStart\<close>) and leaves a task behind; the task is
  resumed later (\<open>resume\<close>), after the other dispatches of the pass have started, in an
  order the environment chooses. The outcome of an awaited call is fixed when the call is
  made and is kept in the task.

  \<open>executeFunction\<close> is called by the source without being imported or declared in the
  file; it is taken to be the device command channel.
\<close>

subsection \<open>Data\<close>

datatype side = Left | Right

text \<open>
  Modelled from the spec: \<open>GestureSchema\<close> of db/settingsSchema is not under src/. The
  glossary names the tap patterns double, triple and quad; the log lines of the source name
  \<open>tripleTap\<close> and \<open>quadTap\<close>.
\<close>

datatype gesture = DoubleTap | TripleTap | QuadTap

definition GestureSchema_options :: "gesture list" where
  "GestureSchema_options = [DoubleTap, TripleTap, QuadTap]"

text \<open>
  Modelled from the spec: the enum \<open>Version\<close> of deviceStatusSchema is not under src/.
  The source names only \<open>Version.Pod3\<close>, the generation without gesture support.
\<close>

datatype version = Pod3 | OtherVersion string

datatype change = Increment | Decrement

datatype behavior = Temperature change int | Alarm | Base

text \<open>The keys of \<open>BASE_PRESETS\<close> that \<open>currentBasePreset\<close> is ever assigned.\<close>

datatype preset = Relax | Flat

record position =
  head :: int
  feet :: int

record basePreset = position +
  feedRate :: int

record baseStatus = position +
  isMoving :: bool
  lastUpdate :: int
  isConfigured :: bool

record memoryData =
  baseStatus :: "baseStatus option"

record sideStatus =
  targetTemperatureF :: int
  isAlarmVibrating :: bool
  taps :: "(gesture \<Rightarrow> int option) option"

record deviceStatus =
  left :: sideStatus
  right :: sideStatus
  coverVersion :: version

definition atSide :: "deviceStatus \<Rightarrow> side \<Rightarrow> sideStatus" where
  "atSide ds s = (case s of Left \<Rightarrow> left ds | Right \<Rightarrow> right ds)"

text \<open>
  The values \<open>cbor.decode\<close> can hand back, as far as \<open>snoozeAlarm\<close> tells them apart.
  An integer beyond the safe range of a number comes back as a BigInt.
\<close>

datatype jsval =
    JUndefined
  | JNull
  | JBool bool
  | JNum int
  | JBigInt int
  | JStr string
  | JArr "jsval list"
  | JObj "(string \<times> jsval) list"

type_synonym bytes = "8 word list"

datatype level = Debug | Info | Warn | Error

datatype healthState = Healthy | Failed

record health =
  status :: healthState
  message :: string
  timestamp :: int

datatype baseCommand = GoToFlat | SetPosition int int int

datatype outcome = Returned | Rejected

text \<open>
  An update request \<open>{ [side]: { targetTemperatureF: v } }\<close> is the list of the sides it
  mentions, each with the list of the fields it sets.
\<close>

type_synonym updateRequest = "(side \<times> (string \<times> int) list) list"

record env =
  settings :: "side \<Rightarrow> gesture \<Rightarrow> behavior"
  BASE_PRESETS :: "preset \<Rightarrow> basePreset"
  alarmFile :: "bytes option"
  cbor_decode :: "bytes \<Rightarrow> jsval option"
  cbor_encode :: "jsval \<Rightarrow> bytes"
  dateNow :: int
  executeOk :: "string \<Rightarrow> string \<Rightarrow> bool"
  updateOk :: "updateRequest \<Rightarrow> bool"
  writeOk :: "nat \<Rightarrow> bool"
  moveOk :: "baseCommand \<Rightarrow> bool"

text \<open>
  What a started gesture waits for: the promise of the call it made, with the outcome the
  call will have, and for a base gesture the target preset read on line 134.
\<close>

datatype task =
    AfterUpdate outcome
  | AfterAlarmSet outcome
  | AfterAlarmClear outcome
  | AfterStatusWrite basePreset outcome
  | AfterMove basePreset outcome
  | AfterRollbackWrite outcome

datatype progress = Done outcome | Suspended task

record state =
  isRunning :: bool
  deviceStatus :: "deviceStatus option"
  currentBasePreset :: preset
  hasGestures :: bool
  waitTime :: int
  memoryDB :: "memoryData option"
  frankenMonitor :: health
  executed :: "(string \<times> string) list"
  updates :: "updateRequest list"
  baseCommands :: "baseCommand list"
  writes :: nat
  timers :: "int list"
  waits :: "int list"
  logs :: "(level \<times> string) list"
  unhandled :: nat
  pending :: "task list"

definition logger :: "level \<Rightarrow> string \<Rightarrow> state \<Rightarrow> state" where
  "logger l m st = st\<lparr>logs := logs st @ [(l, m)]\<rparr>"

subsection \<open>JavaScript values\<close>

definition truthy :: "jsval \<Rightarrow> bool" where
  "truthy v = (case v of
      JUndefined \<Rightarrow> False
    | JNull \<Rightarrow> False
    | JBool b \<Rightarrow> b
    | JNum n \<Rightarrow> n \<noteq> 0
    | JBigInt n \<Rightarrow> n \<noteq> 0
    | JStr s \<Rightarrow> s \<noteq> []
    | JArr _ \<Rightarrow> True
    | JObj _ \<Rightarrow> True)"

definition typeofObject :: "jsval \<Rightarrow> bool" where
  "typeofObject v = (case v of
      JNull \<Rightarrow> True
    | JArr _ \<Rightarrow> True
    | JObj _ \<Rightarrow> True
    | _ \<Rightarrow> False)"

text \<open>
  \<open>v[k]\<close> for one of the keys the source reads (\<open>left\<close>, \<open>right\<close>, \<open>pl\<close>, \<open>du\<close>,
  \<open>pi\<close>): a TypeError (\<open>None\<close>) on \<open>undefined\<close> and \<open>null\<close>, the stored value on an
  object that has the key, \<open>undefined\<close> everywhere else.
\<close>

definition getProp :: "jsval \<Rightarrow> string \<Rightarrow> jsval option" where
  "getProp v k = (case v of
      JUndefined \<Rightarrow> None
    | JNull \<Rightarrow> None
    | JObj kvs \<Rightarrow> (case map_of kvs k of None \<Rightarrow> Some JUndefined | Some x \<Rightarrow> Some x)
    | _ \<Rightarrow> Some JUndefined)"

text \<open>
  \<open>JSON.stringify(v)\<close> throws a TypeError when it meets a BigInt, in \<open>v\<close> itself or
  anywhere inside it.
\<close>

fun hasBigInt :: "jsval \<Rightarrow> bool" where
  "hasBigInt (JBigInt n) = True"
| "hasBigInt (JArr vs) = list_ex hasBigInt vs"
| "hasBigInt (JObj kvs) = list_ex hasBigInt (map snd kvs)"
| "hasBigInt v = False"

definition sideKey :: "side \<Rightarrow> string" where
  "sideKey s = (case s of Left \<Rightarrow> ''left'' | Right \<Rightarrow> ''right'')"

subsection \<open>Buffer.toString('hex')\<close>

definition hexDigit :: "nat \<Rightarrow> char" where
  "hexDigit n = ''0123456789abcdef'' ! n"

definition toHex :: "bytes \<Rightarrow> string" where
  "toHex bs = concat (map (\<lambda>b. [hexDigit (unat b div 16), hexDigit (unat b mod 16)]) bs)"



subsection \<open>The snooze subsystem\<close>

definition DEFAULT_SNOOZE_MINUTES :: int where "DEFAULT_SNOOZE_MINUTES = 10"
definition MIN_SNOOZE_MINUTES :: int where "MIN_SNOOZE_MINUTES = 1"
definition MAX_SNOOZE_MINUTES :: int where "MAX_SNOOZE_MINUTES = 10"

text \<open>
  \<open>executeFunction(command, payload)\<close>: the command is handed to the device channel,
  which accepts or rejects it.
\<close>

definition executeFunction :: "env \<Rightarrow> string \<Rightarrow> string \<Rightarrow> state \<Rightarrow> outcome \<times> state" where
  "executeFunction e command payload st =
     (if executeOk e command payload then Returned else Rejected,
      st\<lparr>executed := executed st @ [(command, payload)]\<rparr>)"

text \<open>The minutes after the range check of lines 70 to 77.\<close>

definition validMinutes :: "int \<Rightarrow> int" where
  "validMinutes minutes =
     (if minutes < MIN_SNOOZE_MINUTES \<or> minutes > MAX_SNOOZE_MINUTES then 10 else minutes)"

definition alarmPayload :: "jsval \<Rightarrow> jsval \<Rightarrow> int \<Rightarrow> jsval \<Rightarrow> jsval" where
  "alarmPayload pl du tt pi' =
     JObj [(''pl'', pl), (''du'', du), (''tt'', JNum tt), (''pi'', pi')]"

text \<open>
  The \<open>try\<close> block of \<open>snoozeAlarm\<close> up to the call of line 101: the command and
  payload to hand over, or \<open>None\<close> when a line before the call throws. The template
  strings of lines 59 and 99 are evaluated before the logger is called, and their
  \<open>JSON.stringify\<close> throws on a BigInt.
\<close>

definition snoozeCall ::
  "env \<Rightarrow> side \<Rightarrow> int \<Rightarrow> state \<Rightarrow> (string \<times> string) option \<times> state" where
  "snoozeCall e s minutes st =
     (case alarmFile e of
        None \<Rightarrow> (None, st)
      | Some alarmBytes \<Rightarrow>
     (case cbor_decode e alarmBytes of
        None \<Rightarrow> (None, st)
      | Some alarmData \<Rightarrow>
     (if hasBigInt alarmData then (None, st)
      else
     (let st1 = logger Debug ''Decoded alarm data'' st in
      case getProp alarmData (sideKey s) of
        None \<Rightarrow> (None, st1)
      | Some sideData \<Rightarrow>
     (if \<not> truthy sideData \<or> \<not> typeofObject sideData then (None, st1)
      else
       (let st2 = (if minutes < MIN_SNOOZE_MINUTES \<or> minutes > MAX_SNOOZE_MINUTES
                   then logger Warn ''Snooze minutes out of range. Defaulting to 10.'' st1
                   else st1);
            minutes' = validMinutes minutes;
            snoozeTime = dateNow e div 1000 + minutes' * 60
        in case (getProp sideData ''pl'', getProp sideData ''du'', getProp sideData ''pi'') of
             (Some pl, Some du, Some pi') \<Rightarrow>
               (let hexPayload = toHex (cbor_encode e (alarmPayload pl du snoozeTime pi'));
                    command = (if s = Left then ''ALARM_LEFT'' else ''ALARM_RIGHT'')
                in if hasBigInt (alarmPayload pl du snoozeTime pi') then (None, st2)
                   else (Some (command, hexPayload),
                         logger Info ''Setting snooze alarm'' st2))
           | _ \<Rightarrow> (None, st2)))))))"

text \<open>The \<open>try\<close> block with its call awaited; \<open>Rejected\<close> is a throw.\<close>

definition snoozeTry :: "env \<Rightarrow> side \<Rightarrow> int \<Rightarrow> state \<Rightarrow> outcome \<times> state" where
  "snoozeTry e s minutes st =
     (case snoozeCall e s minutes st of
        (None, st1) \<Rightarrow> (Rejected, st1)
      | (Some (command, hexPayload), st1) \<Rightarrow> executeFunction e command hexPayload st1)"

definition snoozeAlarm :: "env \<Rightarrow> side \<Rightarrow> int \<Rightarrow> state \<Rightarrow> outcome \<times> state" where
  "snoozeAlarm e s minutes st =
     (case snoozeTry e s minutes (logger Info ''Snoozing alarm'' st) of
        (Returned, st1) \<Rightarrow> (Returned, st1)
      | (Rejected, st1) \<Rightarrow>
          executeFunction e ''ALARM_CLEAR'' ''empty''
            (logger Error ''Failed to snooze alarm'' st1))"

subsection \<open>The gesture action dispatcher\<close>

text \<open>
  \<open>processGesture\<close> and its three branches, each run alone from its call to its end.
\<close>

text \<open>
  \<open>updateDeviceStatus(request)\<close> of routes/deviceStatus: the request is handed over,
  and accepted or rejected.
\<close>

definition updateDeviceStatus :: "env \<Rightarrow> updateRequest \<Rightarrow> state \<Rightarrow> outcome \<times> state" where
  "updateDeviceStatus e req st =
     (if updateOk e req then Returned else Rejected, st\<lparr>updates := updates st @ [req]\<rparr>)"

text \<open>\<open>memoryDB.write()\<close>: the outcome of the n-th call is \<open>writeOk e n\<close>.\<close>

definition memoryDB_write :: "env \<Rightarrow> state \<Rightarrow> outcome \<times> state" where
  "memoryDB_write e st =
     (if writeOk e (writes st) then Returned else Rejected, st\<lparr>writes := Suc (writes st)\<rparr>)"

text \<open>\<open>trimixBase.goToFlat()\<close> and \<open>trimixBase.setPosition(...)\<close>.\<close>

definition trimixBase :: "env \<Rightarrow> baseCommand \<Rightarrow> state \<Rightarrow> outcome \<times> state" where
  "trimixBase e c st =
     (if moveOk e c then Returned else Rejected, st\<lparr>baseCommands := baseCommands st @ [c]\<rparr>)"

definition togglePreset :: "preset \<Rightarrow> preset" where
  "togglePreset p = (if p = Relax then Flat else Relax)"

text \<open>Lines 166 to 171: the estimate, from the base status found in the data base.\<close>

definition estimatedTime :: "memoryData option \<Rightarrow> basePreset \<Rightarrow> int" where
  "estimatedTime db targetPreset =
     (let currentStatus = (case db of None \<Rightarrow> None | Some d \<Rightarrow> baseStatus d) in
      max (max
        (\<bar>(case currentStatus of None \<Rightarrow> 0 | Some c \<Rightarrow> head c) - head targetPreset\<bar> * 200)
        (\<bar>(case currentStatus of None \<Rightarrow> 0 | Some c \<Rightarrow> feet c) - feet targetPreset\<bar> * 200))
        3000)"

text \<open>The \<open>try\<close> block of the base branch (lines 141 to 181).\<close>

definition baseTry :: "env \<Rightarrow> basePreset \<Rightarrow> state \<Rightarrow> outcome \<times> state" where
  "baseTry e targetPreset st =
     (case (case memoryDB st of
              None \<Rightarrow> (Returned, st)
            | Some d \<Rightarrow>
                memoryDB_write e
                  (st\<lparr>memoryDB := Some (d\<lparr>baseStatus := Some
                     \<lparr>head = head targetPreset, feet = feet targetPreset, isMoving = True,
                      lastUpdate = dateNow e, isConfigured = True\<rparr>\<rparr>)\<rparr>)) of
        (Rejected, st1) \<Rightarrow> (Rejected, st1)
      | (Returned, st1) \<Rightarrow>
     (case trimixBase e
             (if currentBasePreset st1 = Flat then GoToFlat
              else SetPosition (head targetPreset) (feet targetPreset) (feedRate targetPreset))
             st1 of
        (Rejected, st2) \<Rightarrow> (Rejected, st2)
      | (Returned, st2) \<Rightarrow>
          (Returned, st2\<lparr>timers := timers st2 @ [estimatedTime (memoryDB st2) targetPreset]\<rparr>)))"

text \<open>The \<open>catch\<close> block of the base branch (lines 182 to 196).\<close>

definition baseCatch :: "env \<Rightarrow> state \<Rightarrow> outcome \<times> state" where
  "baseCatch e st =
     (let st1 = logger Error ''[quadTap] Failed to set base preset'' st in
      case (case memoryDB st1 of
              None \<Rightarrow> (Returned, st1)
            | Some d \<Rightarrow>
               (case baseStatus d of
                  None \<Rightarrow> (Returned, st1)
                | Some b \<Rightarrow>
                    memoryDB_write e
                      (st1\<lparr>memoryDB := Some (d\<lparr>baseStatus := Some (b\<lparr>isMoving := False\<rparr>)\<rparr>)\<rparr>))) of
        (Rejected, st2) \<Rightarrow> (Rejected, st2)
      | (Returned, st2) \<Rightarrow>
          (Returned, st2\<lparr>currentBasePreset := togglePreset (currentBasePreset st2)\<rparr>))"

definition baseGesture :: "env \<Rightarrow> state \<Rightarrow> outcome \<times> state" where
  "baseGesture e st =
     (let st1 = st\<lparr>currentBasePreset := togglePreset (currentBasePreset st)\<rparr>;
          targetPreset = BASE_PRESETS e (currentBasePreset st1);
          st2 = logger Info ''[quadTap] Cycling base'' st1
      in case baseTry e targetPreset st2 of
           (Returned, st3) \<Rightarrow> (Returned, st3)
         | (Rejected, st3) \<Rightarrow> baseCatch e st3)"

text \<open>The callback given to \<open>setTimeout\<close> (lines 173 to 181).\<close>

definition movementCompleted :: "env \<Rightarrow> state \<Rightarrow> outcome \<times> state" where
  "movementCompleted e st =
     (let st1 = logger Info ''[quadTap] Base preset movement completed'' st in
      case memoryDB st1 of
        None \<Rightarrow> (Returned, st1)
      | Some d \<Rightarrow>
         (case baseStatus d of
            None \<Rightarrow> (Returned, st1)
          | Some b \<Rightarrow>
              memoryDB_write e
                (st1\<lparr>memoryDB := Some (d\<lparr>baseStatus := Some (b\<lparr>isMoving := False\<rparr>)\<rparr>)\<rparr>)))"

definition temperatureGesture ::
  "env \<Rightarrow> side \<Rightarrow> change \<Rightarrow> int \<Rightarrow> state \<Rightarrow> outcome \<times> state" where
  "temperatureGesture e s c amount st =
     (case deviceStatus st of
        None \<Rightarrow> (Rejected, st)
      | Some ds \<Rightarrow>
         (let currentTemperatureTarget = targetTemperatureF (atSide ds s);
              newTemperatureTargetF =
                (if c = Increment then currentTemperatureTarget + amount
                 else currentTemperatureTarget + (- 1 * amount))
          in updateDeviceStatus e [(s, [(''targetTemperatureF'', newTemperatureTargetF)])]
               (logger Debug ''Processing gesture temperature change'' st)))"

definition alarmGesture :: "env \<Rightarrow> side \<Rightarrow> state \<Rightarrow> outcome \<times> state" where
  "alarmGesture e s st =
     (case deviceStatus st of
        None \<Rightarrow> (Returned, st)
      | Some ds \<Rightarrow>
          (if isAlarmVibrating (left ds) \<or> isAlarmVibrating (right ds)
           then snoozeAlarm e s 10 (logger Info ''[tripleTap] Snoozing active alarm'' st)
           else (Returned, st)))"

definition processGesture :: "env \<Rightarrow> side \<Rightarrow> gesture \<Rightarrow> state \<Rightarrow> outcome \<times> state" where
  "processGesture e s g st =
     (case settings e s g of
        Temperature c amount \<Rightarrow> temperatureGesture e s c amount st
      | Alarm \<Rightarrow> alarmGesture e s st
      | Base \<Rightarrow> baseGesture e st)"

subsection \<open>A gesture started and resumed\<close>

text \<open>
  \<open>snoozeAlarm\<close> to its first \<open>await\<close>. \<open>readFileSync\<close> and the codec are synchronous,
  so the start reaches the call of line 101, or that of line 107 when a line before
  throws.
\<close>

definition snoozeAlarmStart :: "env \<Rightarrow> side \<Rightarrow> int \<Rightarrow> state \<Rightarrow> progress \<times> state" where
  "snoozeAlarmStart e s minutes st =
     (case snoozeCall e s minutes (logger Info ''Snoozing alarm'' st) of
        (Some (command, hexPayload), st1) \<Rightarrow>
          (case executeFunction e command hexPayload st1 of
             (out, st2) \<Rightarrow> (Suspended (AfterAlarmSet out), st2))
      | (None, st1) \<Rightarrow>
          (case executeFunction e ''ALARM_CLEAR'' ''empty''
                  (logger Error ''Failed to snooze alarm'' st1) of
             (out, st2) \<Rightarrow> (Suspended (AfterAlarmClear out), st2)))"

text \<open>Lines 155 to 163: the movement command, chosen by the preset mode as it is now.\<close>

definition baseMove :: "env \<Rightarrow> basePreset \<Rightarrow> state \<Rightarrow> progress \<times> state" where
  "baseMove e targetPreset st =
     (case trimixBase e
             (if currentBasePreset st = Flat then GoToFlat
              else SetPosition (head targetPreset) (feet targetPreset) (feedRate targetPreset))
             st of
        (out, st1) \<Rightarrow> (Suspended (AfterMove targetPreset out), st1))"

text \<open>The \<open>catch\<close> block of the base branch to its \<open>await\<close>, or to its end without one.\<close>

definition baseCatchStart :: "env \<Rightarrow> state \<Rightarrow> progress \<times> state" where
  "baseCatchStart e st =
     (let st1 = logger Error ''[quadTap] Failed to set base preset'' st in
      case memoryDB st1 of
        None \<Rightarrow>
          (Done Returned, st1\<lparr>currentBasePreset := togglePreset (currentBasePreset st1)\<rparr>)
      | Some d \<Rightarrow>
         (case baseStatus d of
            None \<Rightarrow>
              (Done Returned, st1\<lparr>currentBasePreset := togglePreset (currentBasePreset st1)\<rparr>)
          | Some b \<Rightarrow>
             (case memoryDB_write e
                     (st1\<lparr>memoryDB := Some (d\<lparr>baseStatus := Some (b\<lparr>isMoving := False\<rparr>)\<rparr>)\<rparr>) of
                (out, st2) \<Rightarrow> (Suspended (AfterRollbackWrite out), st2))))"

text \<open>The base branch to its first \<open>await\<close>.\<close>

definition baseStart :: "env \<Rightarrow> state \<Rightarrow> progress \<times> state" where
  "baseStart e st =
     (let st1 = st\<lparr>currentBasePreset := togglePreset (currentBasePreset st)\<rparr>;
          targetPreset = BASE_PRESETS e (currentBasePreset st1);
          st2 = logger Info ''[quadTap] Cycling base'' st1
      in case memoryDB st2 of
           None \<Rightarrow> baseMove e targetPreset st2
         | Some d \<Rightarrow>
            (case memoryDB_write e
                    (st2\<lparr>memoryDB := Some (d\<lparr>baseStatus := Some
                       \<lparr>head = head targetPreset, feet = feet targetPreset, isMoving = True,
                        lastUpdate = dateNow e, isConfigured = True\<rparr>\<rparr>)\<rparr>) of
               (out, st3) \<Rightarrow> (Suspended (AfterStatusWrite targetPreset out), st3)))"

definition temperatureStart ::
  "env \<Rightarrow> side \<Rightarrow> change \<Rightarrow> int \<Rightarrow> state \<Rightarrow> progress \<times> state" where
  "temperatureStart e s c amount st =
     (case deviceStatus st of
        None \<Rightarrow> (Done Rejected, st)
      | Some ds \<Rightarrow>
         (let currentTemperatureTarget = targetTemperatureF (atSide ds s);
              newTemperatureTargetF =
                (if c = Increment then currentTemperatureTarget + amount
                 else currentTemperatureTarget + (- 1 * amount))
          in case updateDeviceStatus e [(s, [(''targetTemperatureF'', newTemperatureTargetF)])]
                    (logger Debug ''Processing gesture temperature change'' st) of
               (out, st1) \<Rightarrow> (Suspended (AfterUpdate out), st1)))"

definition alarmStart :: "env \<Rightarrow> side \<Rightarrow> state \<Rightarrow> progress \<times> state" where
  "alarmStart e s st =
     (case deviceStatus st of
        None \<Rightarrow> (Done Returned, st)
      | Some ds \<Rightarrow>
          (if isAlarmVibrating (left ds) \<or> isAlarmVibrating (right ds)
           then snoozeAlarmStart e s 10 (logger Info ''[tripleTap] Snoozing active alarm'' st)
           else (Done Returned, st)))"

text \<open>\<open>processGesture\<close> from its call to its first \<open>await\<close>.\<close>

definition processGestureStart :: "env \<Rightarrow> side \<Rightarrow> gesture \<Rightarrow> state \<Rightarrow> progress \<times> state" where
  "processGestureStart e s g st =
     (case settings e s g of
        Temperature c amount \<Rightarrow> temperatureStart e s c amount st
      | Alarm \<Rightarrow> alarmStart e s st
      | Base \<Rightarrow> baseStart e st)"

text \<open>A task taken up again when its promise has settled, to its next \<open>await\<close> or its end.\<close>

definition resume :: "env \<Rightarrow> task \<Rightarrow> state \<Rightarrow> progress \<times> state" where
  "resume e t st =
     (case t of
        AfterUpdate out \<Rightarrow> (Done out, st)
      | AfterAlarmSet out \<Rightarrow>
          (case out of
             Returned \<Rightarrow> (Done Returned, st)
           | Rejected \<Rightarrow>
              (case executeFunction e ''ALARM_CLEAR'' ''empty''
                      (logger Error ''Failed to snooze alarm'' st) of
                 (out', st1) \<Rightarrow> (Suspended (AfterAlarmClear out'), st1)))
      | AfterAlarmClear out \<Rightarrow> (Done out, st)
      | AfterStatusWrite targetPreset out \<Rightarrow>
          (case out of
             Returned \<Rightarrow> baseMove e targetPreset st
           | Rejected \<Rightarrow> baseCatchStart e st)
      | AfterMove targetPreset out \<Rightarrow>
          (case out of
             Returned \<Rightarrow>
               (Done Returned,
                st\<lparr>timers := timers st @ [estimatedTime (memoryDB st) targetPreset]\<rparr>)
           | Rejected \<Rightarrow> baseCatchStart e st)
      | AfterRollbackWrite out \<Rightarrow>
          (case out of
             Returned \<Rightarrow>
               (Done Returned, st\<lparr>currentBasePreset := togglePreset (currentBasePreset st)\<rparr>)
           | Rejected \<Rightarrow> (Done Rejected, st)))"

text \<open>A started gesture resumed at most \<open>n\<close> times with nothing else in between.\<close>

fun settle :: "env \<Rightarrow> nat \<Rightarrow> progress \<times> state \<Rightarrow> progress \<times> state" where
  "settle e 0 p = p"
| "settle e (Suc n) (Done out, st) = (Done out, st)"
| "settle e (Suc n) (Suspended t, st) = settle e n (resume e t st)"

text \<open>
  The promise of a gesture is dropped by its caller: an ended gesture leaves nothing but a
  rejection that nobody handles, a suspended one joins the tasks that wait.
\<close>

definition dropped :: "progress \<times> state \<Rightarrow> state" where
  "dropped p =
     (case p of
        (Done Returned, st) \<Rightarrow> st
      | (Done Rejected, st) \<Rightarrow> st\<lparr>unhandled := Suc (unhandled st)\<rparr>
      | (Suspended t, st) \<Rightarrow> st\<lparr>pending := pending st @ [t]\<rparr>)"

text \<open>
  The environment resumes the waiting task at position \<open>i\<close>; \<open>resumeAll\<close> does so for a
  list of positions, one after the other.
\<close>

definition resumeAt :: "env \<Rightarrow> nat \<Rightarrow> state \<Rightarrow> state" where
  "resumeAt e i st =
     (if i < length (pending st)
      then dropped (resume e (pending st ! i)
                      (st\<lparr>pending := take i (pending st) @ drop (Suc i) (pending st)\<rparr>))
      else st)"

fun resumeAll :: "env \<Rightarrow> nat list \<Rightarrow> state \<Rightarrow> state" where
  "resumeAll e [] st = st"
| "resumeAll e (i # is) st = resumeAll e is (resumeAt e i st)"

subsection \<open>The gesture diff\<close>

text \<open>\<open>status?.[side].taps?.[gesture]\<close>, with \<open>None\<close> for \<open>undefined\<close>.\<close>

definition tapEntry :: "deviceStatus option \<Rightarrow> side \<Rightarrow> gesture \<Rightarrow> int option" where
  "tapEntry stored s g =
     (case stored of
        None \<Rightarrow> None
      | Some ds \<Rightarrow> (case taps (atSide ds s) of None \<Rightarrow> None | Some t \<Rightarrow> t g))"

text \<open>
  Line 204 calls \<open>processGesture\<close> without \<open>await\<close>: the gesture runs to its first
  \<open>await\<close>, and the loop goes on to the next gesture.
\<close>

definition dispatch :: "env \<Rightarrow> side \<Rightarrow> gesture \<Rightarrow> state \<Rightarrow> state" where
  "dispatch e s g st = dropped (processGestureStart e s g st)"

text \<open>
  The \<open>for\<close> loop of \<open>processGesturesForSide\<close> over the gestures still to visit. The
  \<open>try\<close> around it has nothing to catch: the comparison does not throw on a snapshot of
  the declared type, and an \<open>async\<close> function throws nothing at its call.
\<close>

fun gestureLoop :: "env \<Rightarrow> deviceStatus \<Rightarrow> side \<Rightarrow> gesture list \<Rightarrow> state \<Rightarrow> state" where
  "gestureLoop e nextDeviceStatus s [] st = st"
| "gestureLoop e nextDeviceStatus s (g # gs) st =
     gestureLoop e nextDeviceStatus s gs
       (if tapEntry (Some nextDeviceStatus) s g \<noteq> tapEntry (deviceStatus st) s g
        then dispatch e s g st else st)"

definition processGesturesForSide :: "env \<Rightarrow> deviceStatus \<Rightarrow> side \<Rightarrow> state \<Rightarrow> state" where
  "processGesturesForSide e nextDeviceStatus s st =
     gestureLoop e nextDeviceStatus s GestureSchema_options st"

definition processGestures :: "env \<Rightarrow> deviceStatus \<Rightarrow> state \<Rightarrow> state" where
  "processGestures e nextDeviceStatus st =
     (if deviceStatus st = None
      then logger Warn ''Missing current deviceStatus, exiting...'' st
      else processGesturesForSide e nextDeviceStatus Right
             (processGesturesForSide e nextDeviceStatus Left st))"

subsection \<open>The monitor loop\<close>

text \<open>
  What one pass of the loop meets: a connection and a snapshot (\<open>getDeviceStatus\<close> as a
  function of its flag), or an error with its text; and whether \<open>stop()\<close> is called while
  the pass waits, or later in the pass.
\<close>

datatype poll = PollFailed string | PollOk "bool \<Rightarrow> deviceStatus"

datatype stopPoint = NoStop | StopDuringWait | StopLater

text \<open>The \<open>catch\<close> block of the loop (lines 253 to 259).\<close>

definition loopCatch :: "env \<Rightarrow> string \<Rightarrow> state \<Rightarrow> state" where
  "loopCatch e msg st =
     (let st1 = st\<lparr>frankenMonitor := \<lparr>status = Failed, message = msg, timestamp = dateNow e\<rparr>\<rparr>;
          st2 = logger Error msg st1
      in st2\<lparr>waits := waits st2 @ [waitTime st2]\<rparr>)"

text \<open>One pass of the inner \<open>while\<close> (lines 238 to 251), with the \<open>catch\<close> around it.\<close>

definition loopPass :: "env \<Rightarrow> stopPoint \<Rightarrow> poll \<Rightarrow> state \<Rightarrow> state" where
  "loopPass e stop p st =
     (case deviceStatus st of
        None \<Rightarrow> loopCatch e ''TypeError'' st
      | Some ds \<Rightarrow>
         (let hg = (coverVersion ds \<noteq> Pod3);
              wt = (if hg then 2000 else 60000);
              st1 = st\<lparr>hasGestures := hg, waitTime := wt, waits := waits st @ [wt]\<rparr>
          in if stop = StopDuringWait then st1\<lparr>isRunning := False\<rparr>
             else
              (case p of
                 PollFailed msg \<Rightarrow> loopCatch e msg st1
               | PollOk getDeviceStatus \<Rightarrow>
                  (let nextDeviceStatus = getDeviceStatus hg;
                       st2 = (if hg then processGestures e nextDeviceStatus st1 else st1)
                   in st2\<lparr>deviceStatus := Some nextDeviceStatus,
                          frankenMonitor :=
                            \<lparr>status = Healthy, message = [], timestamp = dateNow e\<rparr>\<rparr>))))"

definition loopStep :: "env \<Rightarrow> stopPoint \<Rightarrow> poll \<Rightarrow> state \<Rightarrow> state" where
  "loopStep e stop p st =
     (let st1 = loopPass e stop p st
      in if stop = StopLater then st1\<lparr>isRunning := False\<rparr> else st1)"

text \<open>
  The two nested \<open>while (this.isRunning)\<close> loops, over the passes of a finite run. Each
  pass comes with the positions of the tasks that are resumed while it waits; these tasks
  touch nothing that lines 238 and 239 read or write, and they run before the pass
  dispatches its own gestures.
\<close>

fun loopRun :: "(env \<times> stopPoint \<times> poll \<times> nat list) list \<Rightarrow> state \<Rightarrow> state" where
  "loopRun [] st = st"
| "loopRun ((e, stop, p, resumed) # rest) st =
     (if isRunning st then loopRun rest (loopStep e stop p (resumeAll e resumed st))
      else logger Debug ''FrankenMonitor loop exited'' st)"

text \<open>
  Lines 224 to 233: the first connection with its probe, and the second fetch where
  gestures are supported. The error, when there is one, ends \<open>frankenLoop\<close>.
\<close>

definition loopInit :: "poll \<Rightarrow> poll \<Rightarrow> state \<Rightarrow> string option \<times> state" where
  "loopInit p p2 st =
     (case p of
        PollFailed msg \<Rightarrow> (Some msg, st)
      | PollOk getDeviceStatus \<Rightarrow>
         (let st1 = st\<lparr>deviceStatus := Some (getDeviceStatus False)\<rparr>;
              hg = (coverVersion (getDeviceStatus False) \<noteq> Pod3);
              wt = (if hg then 2000 else 60000);
              st2 = st1\<lparr>hasGestures := hg, waitTime := wt\<rparr>
          in if hg
             then (case p2 of
                     PollFailed msg \<Rightarrow> (Some msg, st2)
                   | PollOk getDeviceStatus2 \<Rightarrow>
                       (None, logger Debug ''Gestures supported''
                                (st2\<lparr>deviceStatus := Some (getDeviceStatus2 True)\<rparr>)))
             else (None, logger Debug ''Gestures not supported'' st2)))"

definition frankenLoop ::
  "poll \<Rightarrow> poll \<Rightarrow> (env \<times> stopPoint \<times> poll \<times> nat list) list \<Rightarrow> state
     \<Rightarrow> string option \<times> state" where
  "frankenLoop p p2 passes st =
     (case loopInit p p2 st of
        (Some msg, st1) \<Rightarrow> (Some msg, st1)
      | (None, st1) \<Rightarrow> (None, loopRun passes st1))"

definition start ::
  "env \<Rightarrow> poll \<Rightarrow> poll \<Rightarrow> (env \<times> stopPoint \<times> poll \<times> nat list) list \<Rightarrow> state
     \<Rightarrow> state" where
  "start e p p2 passes st =
     (if isRunning st then logger Warn ''FrankenMonitor is already running'' st
      else
       (case frankenLoop p p2 passes (st\<lparr>isRunning := True\<rparr>) of
          (None, st1) \<Rightarrow> st1
        | (Some msg, st1) \<Rightarrow>
            (logger Error msg st1)
              \<lparr>frankenMonitor := \<lparr>status = Failed, message = msg, timestamp = dateNow e\<rparr>\<rparr>))"

definition stop :: "state \<Rightarrow> state" where
  "stop st =
     (if \<not> isRunning st then st
      else (logger Debug ''Stopping FrankenMonitor loop'' st)\<lparr>isRunning := False\<rparr>)"

subsection \<open>A concrete bed\<close>

text \<open>
  An environment and a state to evaluate the model on: a codec that knows one alarm file
  and one payload, presets with the relax position at head 20 and feet 1, and a bed that
  rests in the relax position.
\<close>

definition exampleSideData :: jsval where
  "exampleSideData =
     JObj [(''pl'', JNum 50), (''du'', JNum 600), (''tt'', JNum 1700000000), (''pi'', JStr ''double'')]"

definition exampleAlarmData :: jsval where
  "exampleAlarmData = JObj [(''left'', exampleSideData), (''right'', JNum 0)]"

definition examplePayload :: jsval where
  "examplePayload = alarmPayload (JNum 50) (JNum 600) 1700000700 (JStr ''double'')"

definition exampleDecode :: "bytes \<Rightarrow> jsval option" where
  "exampleDecode b =
     (if b = [0xA1] then Some exampleAlarmData
      else if b = [0xA4] then Some examplePayload else None)"

definition exampleEncode :: "jsval \<Rightarrow> bytes" where
  "exampleEncode v = (if v = examplePayload then [0xA4] else [0xF7])"

definition examplePresets :: "preset \<Rightarrow> basePreset" where
  "examplePresets p =
     (case p of
        Relax \<Rightarrow> \<lparr>head = 20, feet = 1, feedRate = 50\<rparr>
      | Flat \<Rightarrow> \<lparr>head = 0, feet = 0, feedRate = 50\<rparr>)"

definition exampleSettings :: "side \<Rightarrow> gesture \<Rightarrow> behavior" where
  "exampleSettings s g =
     (case g of
        DoubleTap \<Rightarrow> Temperature Increment 2
      | TripleTap \<Rightarrow> Alarm
      | QuadTap \<Rightarrow> Base)"

definition exampleEnv :: env where
  "exampleEnv =
     \<lparr>settings = exampleSettings, BASE_PRESETS = examplePresets, alarmFile = Some [0xA1],
      cbor_decode = exampleDecode, cbor_encode = exampleEncode, dateNow = 1700000100500,
      executeOk = (\<lambda>c p. True), updateOk = (\<lambda>r. True), writeOk = (\<lambda>n. True),
      moveOk = (\<lambda>c. True)\<rparr>"

definition exampleSide :: sideStatus where
  "exampleSide =
     \<lparr>targetTemperatureF = 70, isAlarmVibrating = False, taps = Some (\<lambda>g. Some 0)\<rparr>"

definition exampleStatus :: deviceStatus where
  "exampleStatus =
     \<lparr>left = exampleSide, right = exampleSide, coverVersion = OtherVersion ''Pod 4''\<rparr>"

definition exampleBase :: baseStatus where
  "exampleBase =
     \<lparr>head = 20, feet = 1, isMoving = False, lastUpdate = 0, isConfigured = True\<rparr>"

definition exampleState :: state where
  "exampleState =
     \<lparr>isRunning = True, deviceStatus = Some exampleStatus, currentBasePreset = Relax,
      hasGestures = True, waitTime = 2000,
      memoryDB = Some \<lparr>baseStatus = Some exampleBase\<rparr>,
      frankenMonitor = \<lparr>status = Healthy, message = [], timestamp = 0\<rparr>,
      executed = [], updates = [], baseCommands = [], writes = 0, timers = [], waits = [],
      logs = [], unhandled = 0, pending = []\<rparr>"

text \<open>
  A snapshot of a bed of the generation without gestures, as the probe returns it, and a
  later snapshot of the example bed: on the left side the double and triple tap entries
  have changed, the target temperature is 80 and the alarm vibrates.
\<close>

definition examplePod3 :: deviceStatus where
  "examplePod3 =
     \<lparr>left = \<lparr>targetTemperatureF = 70, isAlarmVibrating = False, taps = None\<rparr>,
      right = \<lparr>targetTemperatureF = 70, isAlarmVibrating = False, taps = None\<rparr>,
      coverVersion = Pod3\<rparr>"

definition exampleNext :: deviceStatus where
  "exampleNext =
     \<lparr>left = \<lparr>targetTemperatureF = 80, isAlarmVibrating = True,
              taps = Some (\<lambda>g. if g = QuadTap then Some 0 else Some 1)\<rparr>,
      right = exampleSide, coverVersion = OtherVersion ''Pod 4''\<rparr>"

text \<open>
  A snapshot in which the quad tap entry has changed on both sides, and an alarm file
  whose left record holds a payload beyond the safe range of a number.
\<close>

definition exampleQuad :: deviceStatus where
  "exampleQuad =
     \<lparr>left = \<lparr>targetTemperatureF = 70, isAlarmVibrating = False,
              taps = Some (\<lambda>g. if g = QuadTap then Some 1 else Some 0)\<rparr>,
      right = \<lparr>targetTemperatureF = 70, isAlarmVibrating = False,
               taps = Some (\<lambda>g. if g = QuadTap then Some 1 else Some 0)\<rparr>,
      coverVersion = OtherVersion ''Pod 4''\<rparr>"




subsection \<open>The estimate as the specification words it\<close>

text \<open>
  The largest of the head travel times 200, the feet travel times 200 and 3000, the travel
  being measured from the base status before the gesture to the target preset.
\<close>

definition specEstimate :: "baseStatus \<Rightarrow> basePreset \<Rightarrow> int" where
  "specEstimate before targetPreset =
     max (max (\<bar>head before - head targetPreset\<bar> * 200)
              (\<bar>feet before - feet targetPreset\<bar> * 200)) 3000"

subsection \<open>Notions used in the statements and proofs\<close>

text \<open>
  The gestures for which the loop of \<open>processGesturesForSide\<close> calls \<open>processGesture\<close>,
  in the order of the calls.
\<close>

definition changedGestures :: "deviceStatus \<Rightarrow> deviceStatus option \<Rightarrow> side \<Rightarrow> gesture list" where
  "changedGestures nextDeviceStatus stored s =
     filter (\<lambda>g. tapEntry (Some nextDeviceStatus) s g \<noteq> tapEntry stored s g)
       GestureSchema_options"

text \<open>What a gesture dispatch leaves alone: the monitor's own fields and the waits.\<close>

definition frame :: "state \<Rightarrow> state \<Rightarrow> bool" where
  "frame st st' \<longleftrightarrow>
     deviceStatus st' = deviceStatus st \<and> waits st' = waits st \<and> waitTime st' = waitTime st
     \<and> hasGestures st' = hasGestures st \<and> isRunning st' = isRunning st"

text \<open>
  A request computed from the snapshot \<open>prev\<close>; an alarm that vibrates in a snapshot; and
  what the dispatches of one pass add to the state when \<open>prev\<close> is the stored snapshot.
\<close>

definition fromStored :: "env \<Rightarrow> deviceStatus \<Rightarrow> updateRequest \<Rightarrow> bool" where
  "fromStored e prev r \<longleftrightarrow>
     (\<exists>s g c amount. settings e s g = Temperature c amount \<and>
        r = [(s, [(''targetTemperatureF'',
               targetTemperatureF (atSide prev s) + (if c = Increment then amount else - amount))])])"

definition vibrating :: "deviceStatus \<Rightarrow> bool" where
  "vibrating ds \<longleftrightarrow> isAlarmVibrating (left ds) \<or> isAlarmVibrating (right ds)"

definition effects :: "env \<Rightarrow> deviceStatus \<Rightarrow> state \<Rightarrow> state \<Rightarrow> bool" where
  "effects e prev st st' \<longleftrightarrow>
     frame st st'
     \<and> (\<exists>reqs. updates st' = updates st @ reqs \<and> (\<forall>r \<in> set reqs. fromStored e prev r))
     \<and> (\<exists>cs. executed st' = executed st @ cs \<and> (\<not> vibrating prev \<longrightarrow> cs = []))"

section \<open>Properties\<close>

subsection \<open>Hex strings read back\<close>






subsection \<open>Snooze: the fail-safe\<close>

lemma executed_logger [simp]: "executed (logger l m st) = executed st"
  by (simp add: logger_def)

lemma executed_executeFunction [simp]:
  "executed (snd (executeFunction e c p st)) = executed st @ [(c, p)]"
  by (simp add: executeFunction_def)

lemma getProp_object:
  "truthy v \<Longrightarrow> typeofObject v \<Longrightarrow> \<exists>x. getProp v k = Some x"
  by (cases v) (simp_all add: getProp_def truthy_def typeofObject_def split: option.splits)

lemma getProp_noBigInt:
  assumes "\<not> hasBigInt v" and "getProp v k = Some x"
  shows "\<not> hasBigInt x"
proof (cases v)
  case (JObj kvs)
  show ?thesis
  proof (cases "map_of kvs k")
    case None
    then show ?thesis using assms(2) JObj by (simp add: getProp_def)
  next
    case (Some y)
    then have "x = y" using assms(2) JObj by (simp add: getProp_def)
    moreover have "y \<in> set (map snd kvs)"
      using map_of_SomeD [OF Some] by force
    ultimately show ?thesis
      using assms(1) JObj by (simp add: list_ex_iff) blast
  qed
qed (use assms in \<open>auto simp: getProp_def\<close>)

lemma hasBigInt_alarmPayload:
  "hasBigInt (alarmPayload pl du tt pi') \<longleftrightarrow> hasBigInt pl \<or> hasBigInt du \<or> hasBigInt pi'"
  by (simp add: alarmPayload_def)

lemma snoozeCall_noFile:
  "alarmFile e = None \<Longrightarrow> snoozeCall e s minutes st = (None, st)"
  by (simp add: snoozeCall_def)

lemma snoozeCall_undecodable:
  "alarmFile e = Some b \<Longrightarrow> cbor_decode e b = None \<Longrightarrow> snoozeCall e s minutes st = (None, st)"
  by (simp add: snoozeCall_def)

lemma snoozeCall_bigInt:
  "alarmFile e = Some b \<Longrightarrow> cbor_decode e b = Some alarmData \<Longrightarrow> hasBigInt alarmData \<Longrightarrow>
   snoozeCall e s minutes st = (None, st)"
  by (simp add: snoozeCall_def)

lemma snoozeCall_noRecord:
  "alarmFile e = Some b \<Longrightarrow> cbor_decode e b = Some alarmData \<Longrightarrow> \<not> hasBigInt alarmData \<Longrightarrow>
   getProp alarmData (sideKey s) = None \<Longrightarrow>
   snoozeCall e s minutes st = (None, logger Debug ''Decoded alarm data'' st)"
  by (simp add: snoozeCall_def)

lemma snoozeCall_badRecord:
  "alarmFile e = Some b \<Longrightarrow> cbor_decode e b = Some alarmData \<Longrightarrow> \<not> hasBigInt alarmData \<Longrightarrow>
   getProp alarmData (sideKey s) = Some sideData \<Longrightarrow>
   \<not> truthy sideData \<or> \<not> typeofObject sideData \<Longrightarrow>
   snoozeCall e s minutes st = (None, logger Debug ''Decoded alarm data'' st)"
  by (simp add: snoozeCall_def)

lemma snoozeCall_valid:
  assumes "alarmFile e = Some b" and "cbor_decode e b = Some alarmData"
    and noBig: "\<not> hasBigInt alarmData"
    and sideData: "getProp alarmData (sideKey s) = Some sideData"
    and "truthy sideData" and "typeofObject sideData"
    and L: "getProp sideData ''pl'' = Some L" and D: "getProp sideData ''du'' = Some D"
    and P: "getProp sideData ''pi'' = Some P"
  shows "snoozeCall e s minutes st =
     (Some (if s = Left then ''ALARM_LEFT'' else ''ALARM_RIGHT'',
            toHex (cbor_encode e
              (alarmPayload L D (dateNow e div 1000 + validMinutes minutes * 60) P))),
      logger Info ''Setting snooze alarm''
          (if minutes < 1 \<or> 10 < minutes
           then logger Warn ''Snooze minutes out of range. Defaulting to 10.''
                  (logger Debug ''Decoded alarm data'' st)
           else logger Debug ''Decoded alarm data'' st))"
proof -
  have sd: "\<not> hasBigInt sideData"
    by (rule getProp_noBigInt [OF noBig sideData])
  have "\<not> hasBigInt L" "\<not> hasBigInt D" "\<not> hasBigInt P"
    using getProp_noBigInt [OF sd] L D P by blast+
  then have "\<not> hasBigInt (alarmPayload L D (dateNow e div 1000 + validMinutes minutes * 60) P)"
    by (simp add: hasBigInt_alarmPayload)
  then show ?thesis
    using assms
    by (simp add: snoozeCall_def Let_def MIN_SNOOZE_MINUTES_def MAX_SNOOZE_MINUTES_def)
qed

text \<open>
  Without a record for the side that the \<open>try\<close> block gets past, the call of line 101
  is not reached, whatever the minutes.
\<close>

lemma snoozeCall_failed:
  assumes "\<not> (\<exists>b alarmData sideData. alarmFile e = Some b \<and> cbor_decode e b = Some alarmData
             \<and> \<not> hasBigInt alarmData
             \<and> getProp alarmData (sideKey s) = Some sideData
             \<and> truthy sideData \<and> typeofObject sideData)"
  shows "\<exists>st1. (st1 = st \<or> st1 = logger Debug ''Decoded alarm data'' st)
           \<and> (\<forall>minutes. snoozeCall e s minutes st = (None, st1))"
proof (cases "alarmFile e")
  case None
  then show ?thesis by (simp add: snoozeCall_noFile)
next
  case fileRead: (Some b)
  show ?thesis
  proof (cases "cbor_decode e b")
    case None
    then show ?thesis by (simp add: snoozeCall_undecodable [OF fileRead])
  next
    case decoded: (Some alarmData)
    show ?thesis
    proof (cases "hasBigInt alarmData")
      case True
      then show ?thesis by (simp add: snoozeCall_bigInt [OF fileRead decoded])
    next
      case noBig: False
      show ?thesis
      proof (cases "getProp alarmData (sideKey s)")
        case None
        then show ?thesis by (simp add: snoozeCall_noRecord [OF fileRead decoded noBig])
      next
        case (Some sideData)
        with assms fileRead decoded noBig
        have "\<not> truthy sideData \<or> \<not> typeofObject sideData"
          by simp
        then show ?thesis by (simp add: snoozeCall_badRecord [OF fileRead decoded noBig Some])
      qed
    qed
  qed
qed

lemma snoozeTry_None:
  "snoozeCall e s minutes st = (None, st1) \<Longrightarrow> snoozeTry e s minutes st = (Rejected, st1)"
  by (simp add: snoozeTry_def)

lemma snoozeTry_Some:
  "snoozeCall e s minutes st = (Some (c, p), st1) \<Longrightarrow>
   snoozeTry e s minutes st = executeFunction e c p st1"
  by (simp add: snoozeTry_def)

lemma snoozeTry_valid:
  "alarmFile e = Some b \<Longrightarrow> cbor_decode e b = Some alarmData \<Longrightarrow> \<not> hasBigInt alarmData \<Longrightarrow>
   getProp alarmData (sideKey s) = Some sideData \<Longrightarrow>
   truthy sideData \<Longrightarrow> typeofObject sideData \<Longrightarrow>
   getProp sideData ''pl'' = Some L \<Longrightarrow> getProp sideData ''du'' = Some D \<Longrightarrow>
   getProp sideData ''pi'' = Some P \<Longrightarrow>
   snoozeTry e s minutes st =
     executeFunction e (if s = Left then ''ALARM_LEFT'' else ''ALARM_RIGHT'')
       (toHex (cbor_encode e
          (alarmPayload L D (dateNow e div 1000 + validMinutes minutes * 60) P)))
       (logger Info ''Setting snooze alarm''
          (if minutes < 1 \<or> 10 < minutes
           then logger Warn ''Snooze minutes out of range. Defaulting to 10.''
                  (logger Debug ''Decoded alarm data'' st)
           else logger Debug ''Decoded alarm data'' st))"
  by (rule snoozeTry_Some [OF snoozeCall_valid])

lemma snoozeAlarm_Rejected:
  "snoozeTry e s minutes (logger Info ''Snoozing alarm'' st) = (Rejected, st1) \<Longrightarrow>
   snoozeAlarm e s minutes st =
     executeFunction e ''ALARM_CLEAR'' ''empty'' (logger Error ''Failed to snooze alarm'' st1)"
  by (simp add: snoozeAlarm_def)

lemma snoozeAlarm_failed:
  assumes "\<not> (\<exists>b alarmData sideData. alarmFile e = Some b \<and> cbor_decode e b = Some alarmData
             \<and> \<not> hasBigInt alarmData
             \<and> getProp alarmData (sideKey s) = Some sideData
             \<and> truthy sideData \<and> typeofObject sideData)"
  shows "\<exists>st1. (st1 = logger Info ''Snoozing alarm'' st
                \<or> st1 = logger Debug ''Decoded alarm data'' (logger Info ''Snoozing alarm'' st))
           \<and> (\<forall>minutes. snoozeAlarm e s minutes st =
                 executeFunction e ''ALARM_CLEAR'' ''empty''
                   (logger Error ''Failed to snooze alarm'' st1))"
proof -
  obtain st1 where
    st1: "st1 = logger Info ''Snoozing alarm'' st
          \<or> st1 = logger Debug ''Decoded alarm data'' (logger Info ''Snoozing alarm'' st)"
    and call: "\<forall>minutes. snoozeCall e s minutes (logger Info ''Snoozing alarm'' st) = (None, st1)"
    using snoozeCall_failed [OF assms, of "logger Info ''Snoozing alarm'' st"] by blast
  have "snoozeAlarm e s minutes st =
          executeFunction e ''ALARM_CLEAR'' ''empty'' (logger Error ''Failed to snooze alarm'' st1)"
    for minutes
    by (rule snoozeAlarm_Rejected [OF snoozeTry_None]) (simp add: call)
  with st1 show ?thesis by blast
qed

text \<open>
  Claim C2. When the alarm file cannot be read, or its content cannot be decoded, or the
  decoded value has no record for the side (the access throws, or the entry is falsy or
  not of type object), \<open>snoozeAlarm\<close> hands the device channel exactly one command, the
  alarm clear, and no alarm-set command.
\<close>

theorem snoozeAlarm_failure_clears:
  assumes "alarmFile e = None
     \<or> (\<exists>b. alarmFile e = Some b \<and> cbor_decode e b = None)
     \<or> (\<exists>b alarmData. alarmFile e = Some b \<and> cbor_decode e b = Some alarmData \<and>
          (case getProp alarmData (sideKey s) of
             None \<Rightarrow> True
           | Some sideData \<Rightarrow> \<not> truthy sideData \<or> \<not> typeofObject sideData))"
  shows "executed (snd (snoozeAlarm e s minutes st)) = executed st @ [(''ALARM_CLEAR'', ''empty'')]"
proof -
  have "\<not> (\<exists>b alarmData sideData. alarmFile e = Some b \<and> cbor_decode e b = Some alarmData
             \<and> \<not> hasBigInt alarmData
             \<and> getProp alarmData (sideKey s) = Some sideData
             \<and> truthy sideData \<and> typeofObject sideData)"
  proof (rule notI, elim exE conjE)
    fix b alarmData sideData
    assume u: "alarmFile e = Some b" "cbor_decode e b = Some alarmData"
      "getProp alarmData (sideKey s) = Some sideData" "truthy sideData" "typeofObject sideData"
    from assms show False
      unfolding u(1) by (simp add: u(2-5))
  qed
  from snoozeAlarm_failed [OF this, of st] obtain st1 where
    st1: "st1 = logger Info ''Snoozing alarm'' st
          \<or> st1 = logger Debug ''Decoded alarm data'' (logger Info ''Snoozing alarm'' st)"
    and run: "snoozeAlarm e s minutes st =
                 executeFunction e ''ALARM_CLEAR'' ''empty''
                   (logger Error ''Failed to snooze alarm'' st1)"
    by blast
  from st1 have "executed st1 = executed st" by auto
  then show ?thesis by (simp add: run)
qed

theorem snoozeAlarm_failure_clears_witness:
  "executed (snd (snoozeAlarm (exampleEnv\<lparr>alarmFile := None\<rparr>) Left 5 exampleState))
     = [(''ALARM_CLEAR'', ''empty'')]
   \<and> executed (snd (snoozeAlarm (exampleEnv\<lparr>alarmFile := Some [0]\<rparr>) Left 5 exampleState))
     = [(''ALARM_CLEAR'', ''empty'')]
   \<and> executed (snd (snoozeAlarm exampleEnv Right 5 exampleState))
     = [(''ALARM_CLEAR'', ''empty'')]"
proof -
  have a: "alarmFile (exampleEnv\<lparr>alarmFile := None\<rparr>) = None" by simp
  have b: "\<exists>b. alarmFile (exampleEnv\<lparr>alarmFile := Some [0]\<rparr>) = Some b
             \<and> cbor_decode (exampleEnv\<lparr>alarmFile := Some [0]\<rparr>) b = None"
    by (simp add: exampleEnv_def exampleDecode_def)
  have c: "\<exists>b alarmData. alarmFile exampleEnv = Some b \<and> cbor_decode exampleEnv b = Some alarmData \<and>
          (case getProp alarmData (sideKey Right) of
             None \<Rightarrow> True
           | Some sideData \<Rightarrow> \<not> truthy sideData \<or> \<not> typeofObject sideData)"
    by (simp add: exampleEnv_def exampleDecode_def exampleAlarmData_def getProp_def sideKey_def
        truthy_def)
  have e: "executed exampleState = []" by (simp add: exampleState_def)
  show ?thesis
    using snoozeAlarm_failure_clears [of "exampleEnv\<lparr>alarmFile := None\<rparr>" Left 5 exampleState]
      snoozeAlarm_failure_clears [of "exampleEnv\<lparr>alarmFile := Some [0]\<rparr>" Left 5 exampleState]
      snoozeAlarm_failure_clears [of exampleEnv Right 5 exampleState]
      a b c e
    by simp
qed

subsection \<open>Snooze: the command that re-arms the alarm\<close>





subsection \<open>Snooze: minutes out of range\<close>

lemma snoozeAlarm_valid:
  assumes "snoozeTry e s minutes (logger Info ''Snoozing alarm'' st) =
             executeFunction e command hexPayload st1"
  shows "snoozeAlarm e s minutes st =
           (if executeOk e command hexPayload
            then (Returned, st1\<lparr>executed := executed st1 @ [(command, hexPayload)]\<rparr>)
            else executeFunction e ''ALARM_CLEAR'' ''empty''
                   (logger Error ''Failed to snooze alarm''
                      (st1\<lparr>executed := executed st1 @ [(command, hexPayload)]\<rparr>)))"
  using assms by (simp add: snoozeAlarm_def executeFunction_def)

text \<open>
  Claim C4. With minutes below 1 or above 10, \<open>snoozeAlarm\<close> ends as it does with
  minutes 10: the same outcome and the same state but for the log, whose entries other
  than warnings are the same too; and where the alarm file decodes to a value without a
  BigInt that holds a usable record for the side, the log holds the warning that the
  minutes were out of range.
\<close>

theorem snoozeAlarm_out_of_range:
  assumes range: "minutes < 1 \<or> 10 < minutes"
  shows "fst (snoozeAlarm e s minutes st) = fst (snoozeAlarm e s 10 st)
       \<and> (snd (snoozeAlarm e s minutes st))\<lparr>logs := []\<rparr> = (snd (snoozeAlarm e s 10 st))\<lparr>logs := []\<rparr>
       \<and> filter (\<lambda>l. fst l \<noteq> Warn) (logs (snd (snoozeAlarm e s minutes st)))
           = filter (\<lambda>l. fst l \<noteq> Warn) (logs (snd (snoozeAlarm e s 10 st)))
       \<and> ((\<exists>b alarmData sideData. alarmFile e = Some b \<and> cbor_decode e b = Some alarmData
             \<and> \<not> hasBigInt alarmData
             \<and> getProp alarmData (sideKey s) = Some sideData
             \<and> truthy sideData \<and> typeofObject sideData)
          \<longrightarrow> (Warn, ''Snooze minutes out of range. Defaulting to 10.'')
                \<in> set (logs (snd (snoozeAlarm e s minutes st))))"
proof (cases "\<exists>b alarmData sideData. alarmFile e = Some b \<and> cbor_decode e b = Some alarmData
             \<and> \<not> hasBigInt alarmData
             \<and> getProp alarmData (sideKey s) = Some sideData
             \<and> truthy sideData \<and> typeofObject sideData")
  case False
  have same: "snoozeAlarm e s minutes st = snoozeAlarm e s 10 st"
    using snoozeAlarm_failed [OF False, of st] by auto
  show ?thesis
    unfolding same using False by (intro conjI refl) blast
next
  case True
  then obtain b alarmData sideData where v: "alarmFile e = Some b"
    "cbor_decode e b = Some alarmData" "\<not> hasBigInt alarmData"
    "getProp alarmData (sideKey s) = Some sideData"
    "truthy sideData" "typeofObject sideData"
    by blast
  obtain L where L: "getProp sideData ''pl'' = Some L"
    using getProp_object [OF v(5,6)] by blast
  obtain D where D: "getProp sideData ''du'' = Some D"
    using getProp_object [OF v(5,6)] by blast
  obtain P where P: "getProp sideData ''pi'' = Some P"
    using getProp_object [OF v(5,6)] by blast
  have vm: "validMinutes minutes = validMinutes 10"
    using range by (auto simp: validMinutes_def MIN_SNOOZE_MINUTES_def MAX_SNOOZE_MINUTES_def)
  note a = snoozeAlarm_valid [OF snoozeTry_valid [OF v L D P]]
  show ?thesis
    unfolding a vm using range
    by (simp add: executeFunction_def logger_def)
qed

theorem snoozeAlarm_out_of_range_witness:
  "snoozeAlarm exampleEnv Left 25 exampleState =
     (Returned, (snd (snoozeAlarm exampleEnv Left 10 exampleState))
        \<lparr>logs := logs (snd (snoozeAlarm exampleEnv Left 25 exampleState))\<rparr>)
   \<and> executed (snd (snoozeAlarm exampleEnv Left 10 exampleState)) = [(''ALARM_LEFT'', ''a4'')]
   \<and> (Warn, ''Snooze minutes out of range. Defaulting to 10.'')
        \<in> set (logs (snd (snoozeAlarm exampleEnv Left 25 exampleState)))"
proof -
  have r: "(25::int) < 1 \<or> 10 < (25::int)" by simp
  have v: "\<exists>b alarmData sideData. alarmFile exampleEnv = Some b
             \<and> cbor_decode exampleEnv b = Some alarmData
             \<and> \<not> hasBigInt alarmData
             \<and> getProp alarmData (sideKey Left) = Some sideData
             \<and> truthy sideData \<and> typeofObject sideData"
    by (simp add: exampleEnv_def exampleDecode_def exampleAlarmData_def exampleSideData_def
        getProp_def sideKey_def truthy_def typeofObject_def)
  have t: "snoozeTry exampleEnv Left 10 (logger Info ''Snoozing alarm'' exampleState) =
     executeFunction exampleEnv ''ALARM_LEFT'' ''a4''
       (logger Info ''Setting snooze alarm''
          (logger Debug ''Decoded alarm data'' (logger Info ''Snoozing alarm'' exampleState)))"
    by (simp add: snoozeTry_def snoozeCall_def Let_def exampleEnv_def exampleDecode_def
        exampleAlarmData_def
        exampleSideData_def getProp_def sideKey_def truthy_def typeofObject_def
        MIN_SNOOZE_MINUTES_def MAX_SNOOZE_MINUTES_def validMinutes_def exampleEncode_def
        examplePayload_def toHex_def hexDigit_def alarmPayload_def)
  have x: "executed (snd (snoozeAlarm exampleEnv Left 10 exampleState)) = [(''ALARM_LEFT'', ''a4'')]"
    unfolding snoozeAlarm_valid [OF t]
    by (simp add: exampleEnv_def exampleState_def logger_def)
  have f: "fst (snoozeAlarm exampleEnv Left 10 exampleState) = Returned"
    unfolding snoozeAlarm_valid [OF t] by (simp add: exampleEnv_def)
  from snoozeAlarm_out_of_range [OF r, of exampleEnv Left exampleState] v f
  have "fst (snoozeAlarm exampleEnv Left 25 exampleState) = Returned"
    and "(snd (snoozeAlarm exampleEnv Left 25 exampleState))\<lparr>logs := []\<rparr>
          = (snd (snoozeAlarm exampleEnv Left 10 exampleState))\<lparr>logs := []\<rparr>"
    and w: "(Warn, ''Snooze minutes out of range. Defaulting to 10.'')
        \<in> set (logs (snd (snoozeAlarm exampleEnv Left 25 exampleState)))"
    by simp_all
  then have "snoozeAlarm exampleEnv Left 25 exampleState =
     (Returned, (snd (snoozeAlarm exampleEnv Left 10 exampleState))
        \<lparr>logs := logs (snd (snoozeAlarm exampleEnv Left 25 exampleState))\<rparr>)"
    by (cases "snoozeAlarm exampleEnv Left 25 exampleState";
        cases "snd (snoozeAlarm exampleEnv Left 25 exampleState)";
        cases "snd (snoozeAlarm exampleEnv Left 10 exampleState)") simp
  with x w show ?thesis by simp
qed

subsection \<open>The temperature gesture\<close>

text \<open>
  Claim C7. A gesture whose behaviour is a temperature change by \<open>amount\<close> issues one
  update request: it names the gesturing side only, and sets only the target temperature
  of that side, to the target of the stored snapshot plus \<open>amount\<close> for an increment and
  minus \<open>amount\<close> for a decrement. With target 70 and amount 2 the request is 72 for an
  increment and 68 for a decrement.
\<close>

theorem temperature_gesture_request:
  assumes "settings e s g = Temperature c amount" and "deviceStatus st = Some ds"
  shows "updates (snd (processGesture e s g st)) =
           updates st @ [[(s, [(''targetTemperatureF'',
             targetTemperatureF (atSide ds s) + (if c = Increment then amount else - amount))])]]"
  using assms
  by (simp add: processGesture_def temperatureGesture_def updateDeviceStatus_def logger_def Let_def)

theorem temperature_gesture_request_witness:
  "updates (snd (processGesture exampleEnv Left DoubleTap exampleState)) =
     [[(Left, [(''targetTemperatureF'', 72)])]]
   \<and> updates (snd (processGesture
        (exampleEnv\<lparr>settings := \<lambda>s g. Temperature Decrement 2\<rparr>) Right DoubleTap exampleState)) =
     [[(Right, [(''targetTemperatureF'', 68)])]]"
proof -
  have a: "settings exampleEnv Left DoubleTap = Temperature Increment 2"
    by (simp add: exampleEnv_def exampleSettings_def)
  have b: "settings (exampleEnv\<lparr>settings := \<lambda>s g. Temperature Decrement 2\<rparr>) Right DoubleTap
             = Temperature Decrement 2"
    by simp
  have d: "deviceStatus exampleState = Some exampleStatus"
    by (simp add: exampleState_def)
  show ?thesis
    using temperature_gesture_request [OF a d] temperature_gesture_request [OF b d]
    by (simp add: exampleState_def exampleStatus_def exampleSide_def atSide_def)
qed

subsection \<open>The base gesture: two in a row, one after the other\<close>

lemma baseTry_ok:
  assumes "\<forall>n. writeOk e n" and "\<forall>c. moveOk e c"
  shows "fst (baseTry e targetPreset st) = Returned"
    and "currentBasePreset (snd (baseTry e targetPreset st)) = currentBasePreset st"
    and "baseCommands (snd (baseTry e targetPreset st)) = baseCommands st @
           [if currentBasePreset st = Flat then GoToFlat
            else SetPosition (head targetPreset) (feet targetPreset) (feedRate targetPreset)]"
  using assms
  by (simp_all add: baseTry_def memoryDB_write_def trimixBase_def split: option.splits)

lemma baseGesture_ok:
  assumes "\<forall>n. writeOk e n" and "\<forall>c. moveOk e c"
  shows "currentBasePreset (snd (baseGesture e st)) = togglePreset (currentBasePreset st)"
    and "baseCommands (snd (baseGesture e st)) = baseCommands st @
           [if togglePreset (currentBasePreset st) = Flat then GoToFlat
            else SetPosition (head (BASE_PRESETS e (togglePreset (currentBasePreset st))))
                   (feet (BASE_PRESETS e (togglePreset (currentBasePreset st))))
                   (feedRate (BASE_PRESETS e (togglePreset (currentBasePreset st))))]"
proof -
  let ?st2 = "logger Info ''[quadTap] Cycling base''
                (st\<lparr>currentBasePreset := togglePreset (currentBasePreset st)\<rparr>)"
  let ?t = "BASE_PRESETS e (togglePreset (currentBasePreset st))"
  have g: "baseGesture e st = (Returned, snd (baseTry e ?t ?st2))"
    using baseTry_ok(1) [OF assms, of ?t ?st2]
    by (cases "baseTry e ?t ?st2") (simp add: baseGesture_def Let_def)
  show "currentBasePreset (snd (baseGesture e st)) = togglePreset (currentBasePreset st)"
    unfolding g by (simp add: baseTry_ok(2) [OF assms] logger_def)
  show "baseCommands (snd (baseGesture e st)) = baseCommands st @
           [if togglePreset (currentBasePreset st) = Flat then GoToFlat
            else SetPosition (head ?t) (feet ?t) (feedRate ?t)]"
    unfolding g by (simp add: baseTry_ok(3) [OF assms] logger_def)
qed

text \<open>
  Two base gestures of which the first has ended before the second starts, with every
  status write and every movement command accepted, leave \<open>currentBasePreset\<close> as it
  was and issue one go-to-flat and one set-position with the relax preset.
\<close>

lemma base_gesture_pair:
  assumes "settings e s g = Base" and "settings e s' g' = Base"
    and "\<forall>n. writeOk e n" and "\<forall>c. moveOk e c"
    and "st1 = snd (processGesture e s g st)" and "st2 = snd (processGesture e s' g' st1)"
  shows "currentBasePreset st2 = currentBasePreset st
       \<and> baseCommands st2 = baseCommands st @
           (if currentBasePreset st = Relax
            then [GoToFlat,
                  SetPosition (head (BASE_PRESETS e Relax)) (feet (BASE_PRESETS e Relax))
                    (feedRate (BASE_PRESETS e Relax))]
            else [SetPosition (head (BASE_PRESETS e Relax)) (feet (BASE_PRESETS e Relax))
                    (feedRate (BASE_PRESETS e Relax)),
                  GoToFlat])"
proof -
  have 1: "st1 = snd (baseGesture e st)" and 2: "st2 = snd (baseGesture e st1)"
    using assms by (simp_all add: processGesture_def)
  show ?thesis
    unfolding 2 baseGesture_ok [OF assms(3,4)] 1
    by (cases "currentBasePreset st") (simp_all add: togglePreset_def)
qed

subsection \<open>The base gesture: the estimate\<close>

lemma baseTry_timer_floor:
  assumes "memoryDB st = Some d" and "fst (baseTry e t st) = Returned"
  shows "timers (snd (baseTry e t st)) = timers st @ [3000]"
  using assms
  by (simp add: baseTry_def memoryDB_write_def trimixBase_def estimatedTime_def
      split: if_splits)

lemma baseTry_timer_no_data:
  assumes "memoryDB st = None" and "fst (baseTry e t st) = Returned"
  shows "timers (snd (baseTry e t st)) =
           timers st @ [max (max (\<bar>head t\<bar> * 200) (\<bar>feet t\<bar> * 200)) 3000]"
  using assms
  by (simp add: baseTry_def trimixBase_def estimatedTime_def split: if_splits)

text \<open>
  Claim C1, evaluated on the code. The bed rests at head 20 and feet 1 in mode relax, and a
  base gesture sends it to the flat preset at head 0 and feet 0. Measured from the position
  before the movement the estimate is 4000. The code has written the target into the base
  status before it reads the status back, so it measures a travel of 0 and schedules the
  completion after 3000.
\<close>

theorem base_estimate_ignores_start:
  "memoryDB exampleState = Some \<lparr>baseStatus = Some exampleBase\<rparr>
   \<and> currentBasePreset exampleState = Relax
   \<and> settings exampleEnv Left QuadTap = Base
   \<and> specEstimate exampleBase (BASE_PRESETS exampleEnv Flat) = 4000
   \<and> fst (processGesture exampleEnv Left QuadTap exampleState) = Returned
   \<and> timers (snd (processGesture exampleEnv Left QuadTap exampleState)) = [3000]"
  by (simp add: exampleState_def exampleEnv_def exampleSettings_def examplePresets_def
      exampleBase_def specEstimate_def processGesture_def baseGesture_def baseTry_def
      memoryDB_write_def trimixBase_def estimatedTime_def togglePreset_def logger_def)

subsection \<open>The base gesture: failures\<close>

lemma togglePreset_twice: "togglePreset (togglePreset p) = p"
  by (cases p) (simp_all add: togglePreset_def)

lemma baseGesture_failure_rolled_back:
  assumes db: "memoryDB st = Some d"
    and failure: "\<not> writeOk e (writes st) \<or>
       \<not> moveOk e (if togglePreset (currentBasePreset st) = Flat then GoToFlat
                    else SetPosition (head (BASE_PRESETS e (togglePreset (currentBasePreset st))))
                           (feet (BASE_PRESETS e (togglePreset (currentBasePreset st))))
                           (feedRate (BASE_PRESETS e (togglePreset (currentBasePreset st)))))"
    and rollback: "writeOk e (Suc (writes st))"
  shows "fst (baseGesture e st) = Returned"
    and "currentBasePreset (snd (baseGesture e st)) = currentBasePreset st"
    and "\<exists>d' b. memoryDB (snd (baseGesture e st)) = Some d' \<and> baseStatus d' = Some b \<and> \<not> isMoving b"
    and "(Error, ''[quadTap] Failed to set base preset'') \<in> set (logs (snd (baseGesture e st)))"
  using assms
  by (auto simp: baseGesture_def baseTry_def baseCatch_def memoryDB_write_def trimixBase_def
      logger_def togglePreset_twice Let_def)

lemma baseGesture_failure_no_data:
  assumes db: "memoryDB st = None"
    and failure:
      "\<not> moveOk e (if togglePreset (currentBasePreset st) = Flat then GoToFlat
                    else SetPosition (head (BASE_PRESETS e (togglePreset (currentBasePreset st))))
                           (feet (BASE_PRESETS e (togglePreset (currentBasePreset st))))
                           (feedRate (BASE_PRESETS e (togglePreset (currentBasePreset st)))))"
  shows "fst (baseGesture e st) = Returned"
    and "currentBasePreset (snd (baseGesture e st)) = currentBasePreset st"
    and "memoryDB (snd (baseGesture e st)) = None"
  using assms
  by (auto simp: baseGesture_def baseTry_def baseCatch_def trimixBase_def
      logger_def togglePreset_twice Let_def)

text \<open>
  Claim C5, evaluated on the code. When every status write fails, or when the movement
  command fails and the status write of the \<open>catch\<close> block fails after it, the base
  gesture ends with a rejected promise and leaves \<open>currentBasePreset\<close> at flat although
  it was relax before the gesture: the second write throws before the line that reverts
  the preset.
\<close>

theorem base_failure_rollback_write_fails:
  "settings exampleEnv Left QuadTap = Base
   \<and> currentBasePreset exampleState = Relax
   \<and> fst (processGesture (exampleEnv\<lparr>writeOk := \<lambda>n. False\<rparr>) Left QuadTap exampleState)
       = Rejected
   \<and> currentBasePreset
       (snd (processGesture (exampleEnv\<lparr>writeOk := \<lambda>n. False\<rparr>) Left QuadTap exampleState))
       = Flat
   \<and> fst (processGesture (exampleEnv\<lparr>moveOk := \<lambda>c. False, writeOk := \<lambda>n. n = 0\<rparr>)
          Left QuadTap exampleState)
       = Rejected
   \<and> currentBasePreset
       (snd (processGesture (exampleEnv\<lparr>moveOk := \<lambda>c. False, writeOk := \<lambda>n. n = 0\<rparr>)
          Left QuadTap exampleState))
       = Flat"
  by (simp add: exampleState_def exampleEnv_def exampleSettings_def examplePresets_def
      exampleBase_def processGesture_def baseGesture_def baseTry_def baseCatch_def
      memoryDB_write_def trimixBase_def togglePreset_def logger_def)

subsection \<open>A gesture started and resumed alone\<close>

lemma settle_Done: "settle e n (Done out, st) = (Done out, st)"
  by (cases n) simp_all

lemma settle_temperature:
  "settle e 3 (temperatureStart e s c amount st) =
     (Done (fst (temperatureGesture e s c amount st)), snd (temperatureGesture e s c amount st))"
  by (simp add: temperatureStart_def temperatureGesture_def updateDeviceStatus_def Let_def
      numeral_3_eq_3 resume_def split: option.splits)

lemma settle_snoozeAlarm:
  "settle e 3 (snoozeAlarmStart e s minutes st) =
     (Done (fst (snoozeAlarm e s minutes st)), snd (snoozeAlarm e s minutes st))"
proof (cases "snoozeCall e s minutes (logger Info ''Snoozing alarm'' st)")
  case (Pair call st1)
  show ?thesis
  proof (cases call)
    case None
    with Pair show ?thesis
      by (simp add: snoozeAlarmStart_def snoozeAlarm_def snoozeTry_def executeFunction_def
          numeral_3_eq_3 resume_def)
  next
    case (Some cp)
    obtain c p where cp: "cp = (c, p)" by (cases cp)
    show ?thesis
      using Pair Some cp
      by (cases "executeOk e c p")
         (simp_all add: snoozeAlarmStart_def snoozeAlarm_def snoozeTry_def executeFunction_def
           numeral_3_eq_3 resume_def)
  qed
qed

lemma settle_alarm:
  "settle e 3 (alarmStart e s st) = (Done (fst (alarmGesture e s st)), snd (alarmGesture e s st))"
  by (simp add: alarmStart_def alarmGesture_def settle_snoozeAlarm settle_Done
      split: option.splits)

lemma settle_base:
  "settle e 3 (baseStart e st) = (Done (fst (baseGesture e st)), snd (baseGesture e st))"
  by (simp add: baseStart_def baseGesture_def baseTry_def baseCatch_def baseMove_def
      baseCatchStart_def memoryDB_write_def trimixBase_def logger_def Let_def
      numeral_3_eq_3 resume_def split: option.splits)

text \<open>
  A gesture that is started and then resumed with nothing else in between ends as
  \<open>processGesture\<close> says.
\<close>

lemma settle_processGesture:
  "settle e 3 (processGestureStart e s g st) =
     (Done (fst (processGesture e s g st)), snd (processGesture e s g st))"
  by (cases "settings e s g")
     (simp_all add: processGestureStart_def processGesture_def settle_temperature settle_alarm
       settle_base)

subsection \<open>The base gesture: two in one pass\<close>

lemma exampleQuad_pass:
  "loopStep exampleEnv NoStop (PollOk (\<lambda>b. exampleQuad)) exampleState =
     exampleState
       \<lparr>deviceStatus := Some exampleQuad,
        currentBasePreset := Relax,
        hasGestures := True, waitTime := 2000, waits := [2000],
        memoryDB := Some \<lparr>baseStatus = Some
          \<lparr>head = 20, feet = 1, isMoving = True, lastUpdate = 1700000100500,
           isConfigured = True\<rparr>\<rparr>,
        frankenMonitor := \<lparr>status = Healthy, message = [], timestamp = 1700000100500\<rparr>,
        writes := 2,
        logs := [(Info, ''[quadTap] Cycling base''), (Info, ''[quadTap] Cycling base'')],
        pending := [AfterStatusWrite \<lparr>head = 0, feet = 0, feedRate = 50\<rparr> Returned,
                    AfterStatusWrite \<lparr>head = 20, feet = 1, feedRate = 50\<rparr> Returned]\<rparr>"
  by (simp add: loopStep_def loopPass_def Let_def exampleState_def exampleStatus_def
      exampleQuad_def exampleSide_def exampleEnv_def exampleSettings_def examplePresets_def
      exampleBase_def processGestures_def processGesturesForSide_def GestureSchema_options_def
      tapEntry_def atSide_def dispatch_def dropped_def processGestureStart_def baseStart_def
      memoryDB_write_def togglePreset_def logger_def)

text \<open>
  Claim C6, evaluated on the code. The bed is in mode relax, and one pass of the loop finds
  the quad tap entry changed on both sides, both configured as base gestures. Both
  gestures toggle the mode and wait for their status write before either goes on. When
  they are resumed, line 155 finds the mode back at relax for both: the first sends
  set-position with the coordinates of the flat preset, the second set-position with those
  of the relax preset, in either order of resumption. No go-to-flat is sent, no call
  fails, and the mode ends at relax as it started.
\<close>

theorem base_gestures_same_pass:
  "settings exampleEnv Left QuadTap = Base
   \<and> settings exampleEnv Right QuadTap = Base
   \<and> currentBasePreset exampleState = Relax
   \<and> baseCommands exampleState = []
   \<and> baseCommands
       (resumeAll exampleEnv [0, 0, 0, 0]
          (loopStep exampleEnv NoStop (PollOk (\<lambda>b. exampleQuad)) exampleState))
       = [SetPosition 0 0 50, SetPosition 20 1 50]
   \<and> pending
       (resumeAll exampleEnv [0, 0, 0, 0]
          (loopStep exampleEnv NoStop (PollOk (\<lambda>b. exampleQuad)) exampleState))
       = []
   \<and> unhandled
       (resumeAll exampleEnv [0, 0, 0, 0]
          (loopStep exampleEnv NoStop (PollOk (\<lambda>b. exampleQuad)) exampleState))
       = 0
   \<and> currentBasePreset
       (resumeAll exampleEnv [0, 0, 0, 0]
          (loopStep exampleEnv NoStop (PollOk (\<lambda>b. exampleQuad)) exampleState))
       = Relax
   \<and> baseCommands
       (resumeAll exampleEnv [1, 0, 0, 0]
          (loopStep exampleEnv NoStop (PollOk (\<lambda>b. exampleQuad)) exampleState))
       = [SetPosition 20 1 50, SetPosition 0 0 50]"
  unfolding exampleQuad_pass
  by (simp add: exampleState_def exampleEnv_def exampleSettings_def resumeAt_def resume_def
      dropped_def baseMove_def trimixBase_def estimatedTime_def)

subsection \<open>What a dispatch leaves alone\<close>

lemma frame_refl: "frame st st"
  by (simp add: frame_def)

lemma frame_trans: "frame a b \<Longrightarrow> frame b c \<Longrightarrow> frame a c"
  by (simp add: frame_def)

lemma snoozeCall_shape:
  "\<exists>ls. snd (snoozeCall e s minutes st) = st\<lparr>logs := logs st @ ls\<rparr>"
proof (cases "\<exists>b alarmData sideData. alarmFile e = Some b \<and> cbor_decode e b = Some alarmData
             \<and> \<not> hasBigInt alarmData
             \<and> getProp alarmData (sideKey s) = Some sideData
             \<and> truthy sideData \<and> typeofObject sideData")
  case False
  from snoozeCall_failed [OF False, of st] obtain st1 where
    st1: "st1 = st \<or> st1 = logger Debug ''Decoded alarm data'' st"
    and call: "snoozeCall e s minutes st = (None, st1)"
    by blast
  from st1 show ?thesis
  proof
    assume "st1 = st"
    then have "snd (snoozeCall e s minutes st) = st\<lparr>logs := logs st @ []\<rparr>"
      by (simp add: call)
    then show ?thesis by (rule exI)
  next
    assume "st1 = logger Debug ''Decoded alarm data'' st"
    then have "snd (snoozeCall e s minutes st) =
        st\<lparr>logs := logs st @ [(Debug, ''Decoded alarm data'')]\<rparr>"
      by (simp add: call logger_def)
    then show ?thesis by (rule exI)
  qed
next
  case True
  then obtain b alarmData sideData where v: "alarmFile e = Some b"
    "cbor_decode e b = Some alarmData" "\<not> hasBigInt alarmData"
    "getProp alarmData (sideKey s) = Some sideData"
    "truthy sideData" "typeofObject sideData"
    by blast
  obtain L where L: "getProp sideData ''pl'' = Some L"
    using getProp_object [OF v(5,6)] by blast
  obtain D where D: "getProp sideData ''du'' = Some D"
    using getProp_object [OF v(5,6)] by blast
  obtain P where P: "getProp sideData ''pi'' = Some P"
    using getProp_object [OF v(5,6)] by blast
  show ?thesis
  proof (cases "minutes < 1 \<or> 10 < minutes")
    case True
    then have "snd (snoozeCall e s minutes st) = st\<lparr>logs := logs st @
        [(Debug, ''Decoded alarm data''),
         (Warn, ''Snooze minutes out of range. Defaulting to 10.''),
         (Info, ''Setting snooze alarm'')]\<rparr>"
      by (simp add: snoozeCall_valid [OF v L D P] logger_def)
    then show ?thesis by (rule exI)
  next
    case False
    then have "snd (snoozeCall e s minutes st) = st\<lparr>logs := logs st @
        [(Debug, ''Decoded alarm data''), (Info, ''Setting snooze alarm'')]\<rparr>"
      by (simp add: snoozeCall_valid [OF v L D P] logger_def)
    then show ?thesis by (rule exI)
  qed
qed

text \<open>The start of a snooze adds to the log and hands the device channel one command.\<close>

lemma snoozeAlarmStart_shape:
  "\<exists>ls c. snd (snoozeAlarmStart e s minutes st) =
            st\<lparr>logs := logs st @ ls, executed := executed st @ [c]\<rparr>"
proof -
  let ?st0 = "logger Info ''Snoozing alarm'' st"
  obtain ls where ls: "snd (snoozeCall e s minutes ?st0) = ?st0\<lparr>logs := logs ?st0 @ ls\<rparr>"
    using snoozeCall_shape by blast
  show ?thesis
  proof (cases "snoozeCall e s minutes ?st0")
    case (Pair call st1)
    with ls have st1: "st1 = ?st0\<lparr>logs := logs ?st0 @ ls\<rparr>" by simp
    show ?thesis
    proof (cases call)
      case None
      have "snd (snoozeAlarmStart e s minutes st) =
          st\<lparr>logs := logs st @ ((Info, ''Snoozing alarm'') # ls @ [(Error, ''Failed to snooze alarm'')]),
             executed := executed st @ [(''ALARM_CLEAR'', ''empty'')]\<rparr>"
        using Pair None
        by (simp add: snoozeAlarmStart_def executeFunction_def st1 logger_def)
      then show ?thesis by blast
    next
      case (Some cp)
      have "snd (snoozeAlarmStart e s minutes st) =
          st\<lparr>logs := logs st @ ((Info, ''Snoozing alarm'') # ls),
             executed := executed st @ [cp]\<rparr>"
        using Pair Some
        by (cases cp) (simp add: snoozeAlarmStart_def executeFunction_def st1 logger_def)
      then show ?thesis by blast
    qed
  qed
qed

lemma frame_baseStart: "frame st (snd (baseStart e st))"
  by (simp add: frame_def baseStart_def baseMove_def memoryDB_write_def
      trimixBase_def logger_def Let_def split: option.splits)

lemma frame_processGestureStart: "frame st (snd (processGestureStart e s g st))"
proof (cases "settings e s g")
  case (Temperature c amount)
  then show ?thesis
    by (simp add: processGestureStart_def temperatureStart_def updateDeviceStatus_def logger_def
        frame_def Let_def split: option.splits)
next
  case Alarm
  let ?st0 = "logger Info ''[tripleTap] Snoozing active alarm'' st"
  obtain ls c where "snd (snoozeAlarmStart e s 10 ?st0) =
            ?st0\<lparr>logs := logs ?st0 @ ls, executed := executed ?st0 @ [c]\<rparr>"
    using snoozeAlarmStart_shape by blast
  then have "frame st (snd (snoozeAlarmStart e s 10 ?st0))"
    by (simp add: frame_def logger_def)
  then show ?thesis
    using Alarm
    by (simp add: processGestureStart_def alarmStart_def frame_refl split: option.splits)
next
  case Base
  then show ?thesis
    by (simp add: processGestureStart_def frame_baseStart)
qed

lemma frame_dropped: "frame st (snd p) \<Longrightarrow> frame st (dropped p)"
proof (cases p)
  case (Pair pr st1)
  assume "frame st (snd p)"
  with Pair have f: "frame st st1" by simp
  show ?thesis
  proof (cases pr)
    case (Done out)
    with Pair f show ?thesis
      by (cases out) (simp_all add: dropped_def frame_def)
  next
    case (Suspended t)
    with Pair f show ?thesis
      by (simp add: dropped_def frame_def)
  qed
qed

lemma frame_dispatch: "frame st (dispatch e s g st)"
  unfolding dispatch_def by (rule frame_dropped [OF frame_processGestureStart])

lemma deviceStatus_dispatch: "deviceStatus (dispatch e s g st) = deviceStatus st"
  using frame_dispatch [of st e s g] by (simp add: frame_def)

lemma gestureLoop_foldl:
  "gestureLoop e nextDeviceStatus s gs st =
     foldl (\<lambda>st' g. dispatch e s g st') st
       (filter (\<lambda>g. tapEntry (Some nextDeviceStatus) s g \<noteq> tapEntry (deviceStatus st) s g) gs)"
  by (induction gs arbitrary: st) (simp_all add: deviceStatus_dispatch)

subsection \<open>The gestures the diff reports\<close>

text \<open>
  Claim C9. For a side, \<open>processGesturesForSide\<close> dispatches exactly the gestures of
  \<open>changedGestures\<close>, one after the other; a gesture occurs in that list once when the
  side's tap entry for it differs between the new and the stored snapshot (a missing entry
  differs from a present one), and not at all otherwise. When no entry of the side differs,
  nothing is dispatched and the state stays as it is.
\<close>

theorem gesture_diff_reports_once:
  "processGesturesForSide e nextDeviceStatus s st =
     foldl (\<lambda>st' g. dispatch e s g st') st (changedGestures nextDeviceStatus (deviceStatus st) s)
   \<and> count_list (changedGestures nextDeviceStatus (deviceStatus st) s) g =
       (if tapEntry (Some nextDeviceStatus) s g \<noteq> tapEntry (deviceStatus st) s g then 1 else 0)
   \<and> ((\<forall>g'. tapEntry (Some nextDeviceStatus) s g' = tapEntry (deviceStatus st) s g')
        \<longrightarrow> processGesturesForSide e nextDeviceStatus s st = st)"
proof (intro conjI impI)
  show f: "processGesturesForSide e nextDeviceStatus s st =
     foldl (\<lambda>st' g. dispatch e s g st') st (changedGestures nextDeviceStatus (deviceStatus st) s)"
    by (simp add: processGesturesForSide_def changedGestures_def gestureLoop_foldl)
  show "count_list (changedGestures nextDeviceStatus (deviceStatus st) s) g =
       (if tapEntry (Some nextDeviceStatus) s g \<noteq> tapEntry (deviceStatus st) s g then 1 else 0)"
    by (cases g) (simp_all add: changedGestures_def GestureSchema_options_def)
  assume "\<forall>g'. tapEntry (Some nextDeviceStatus) s g' = tapEntry (deviceStatus st) s g'"
  then show "processGesturesForSide e nextDeviceStatus s st = st"
    unfolding f by (simp add: changedGestures_def)
qed

theorem gesture_diff_reports_once_witness:
  "processGesturesForSide exampleEnv exampleNext Right exampleState = exampleState
   \<and> count_list (changedGestures exampleNext (deviceStatus exampleState) Left) TripleTap = 1
   \<and> count_list (changedGestures exampleNext (deviceStatus exampleState) Left) QuadTap = 0
   \<and> count_list (changedGestures exampleNext
        (deviceStatus (exampleState\<lparr>deviceStatus := Some examplePod3\<rparr>)) Left) QuadTap = 1"
proof -
  have same: "\<forall>g'. tapEntry (Some exampleNext) Right g' = tapEntry (deviceStatus exampleState) Right g'"
    by (simp add: tapEntry_def exampleNext_def exampleState_def exampleStatus_def atSide_def)
  have t: "tapEntry (Some exampleNext) Left TripleTap \<noteq> tapEntry (deviceStatus exampleState) Left TripleTap"
    by (simp add: tapEntry_def exampleNext_def exampleState_def exampleStatus_def exampleSide_def
        atSide_def)
  have q: "tapEntry (Some exampleNext) Left QuadTap = tapEntry (deviceStatus exampleState) Left QuadTap"
    by (simp add: tapEntry_def exampleNext_def exampleState_def exampleStatus_def exampleSide_def
        atSide_def)
  have m: "tapEntry (Some exampleNext) Left QuadTap \<noteq>
           tapEntry (deviceStatus (exampleState\<lparr>deviceStatus := Some examplePod3\<rparr>)) Left QuadTap"
    by (simp add: tapEntry_def exampleNext_def examplePod3_def atSide_def)
  have 1: "processGesturesForSide exampleEnv exampleNext Right exampleState = exampleState"
    using gesture_diff_reports_once [of exampleEnv exampleNext Right exampleState TripleTap] same
    by blast
  have 2: "count_list (changedGestures exampleNext (deviceStatus exampleState) Left) TripleTap = 1"
    using gesture_diff_reports_once [of exampleEnv exampleNext Left exampleState TripleTap] t
    by presburger
  have 3: "count_list (changedGestures exampleNext (deviceStatus exampleState) Left) QuadTap = 0"
    using gesture_diff_reports_once [of exampleEnv exampleNext Left exampleState QuadTap] q
    by presburger
  have 4: "count_list (changedGestures exampleNext
        (deviceStatus (exampleState\<lparr>deviceStatus := Some examplePod3\<rparr>)) Left) QuadTap = 1"
    using gesture_diff_reports_once [of exampleEnv exampleNext Left
        "exampleState\<lparr>deviceStatus := Some examplePod3\<rparr>" QuadTap] m
    by presburger
  from 1 2 3 4 show ?thesis by blast
qed

subsection \<open>What the dispatches of a pass read\<close>

lemma effects_refl: "effects e prev st st"
  by (simp add: effects_def frame_refl)

lemma effects_trans:
  assumes ab: "effects e prev a b" and bc: "effects e prev b c"
  shows "effects e prev a c"
proof -
  from ab obtain r1 where r1: "updates b = updates a @ r1" "\<forall>r \<in> set r1. fromStored e prev r"
    unfolding effects_def by blast
  from bc obtain r2 where r2: "updates c = updates b @ r2" "\<forall>r \<in> set r2. fromStored e prev r"
    unfolding effects_def by blast
  from ab obtain c1 where c1: "executed b = executed a @ c1" "\<not> vibrating prev \<longrightarrow> c1 = []"
    unfolding effects_def by blast
  from bc obtain c2 where c2: "executed c = executed b @ c2" "\<not> vibrating prev \<longrightarrow> c2 = []"
    unfolding effects_def by blast
  have u: "updates c = updates a @ (r1 @ r2)"
    by (simp add: r1(1) r2(1))
  have uf: "\<forall>r \<in> set (r1 @ r2). fromStored e prev r"
    using r1(2) r2(2) by auto
  have x: "executed c = executed a @ (c1 @ c2)"
    by (simp add: c1(1) c2(1))
  have xf: "\<not> vibrating prev \<longrightarrow> c1 @ c2 = []"
    using c1(2) c2(2) by simp
  have f: "frame a c"
    using ab bc frame_trans [of a b c] by (simp add: effects_def)
  have "\<exists>reqs. updates c = updates a @ reqs \<and> (\<forall>r \<in> set reqs. fromStored e prev r)"
    using u uf by (rule_tac x = "r1 @ r2" in exI) simp
  moreover have "\<exists>cs. executed c = executed a @ cs \<and> (\<not> vibrating prev \<longrightarrow> cs = [])"
    using x xf by (rule_tac x = "c1 @ c2" in exI) simp
  ultimately show ?thesis
    using f by (simp add: effects_def)
qed

lemma effects_frame: "effects e prev st st' \<Longrightarrow> frame st st'"
  by (simp add: effects_def)

lemma effects_only_logs:
  "updates st' = updates st \<Longrightarrow> executed st' = executed st \<Longrightarrow> frame st st' \<Longrightarrow>
   effects e prev st st'"
  by (simp add: effects_def)

lemma updates_dropped: "updates (dropped p) = updates (snd p)"
  by (cases p; cases "fst p"; cases "case fst p of Done out \<Rightarrow> out | _ \<Rightarrow> Returned")
     (auto simp: dropped_def split: progress.splits outcome.splits)

lemma executed_dropped: "executed (dropped p) = executed (snd p)"
  by (cases p; cases "fst p"; cases "case fst p of Done out \<Rightarrow> out | _ \<Rightarrow> Returned")
     (auto simp: dropped_def split: progress.splits outcome.splits)

lemma effects_processGestureStart:
  assumes stored: "deviceStatus st = Some prev"
  shows "effects e prev st (snd (processGestureStart e s g st))"
proof (cases "settings e s g")
  case (Temperature c amount)
  let ?r = "[(s, [(''targetTemperatureF'',
          targetTemperatureF (atSide prev s) + (if c = Increment then amount else - amount))])]"
  have r: "fromStored e prev ?r"
    unfolding fromStored_def using Temperature by blast
  have u: "updates (snd (processGestureStart e s g st)) = updates st @ [?r]"
    using Temperature stored
    by (simp add: processGestureStart_def temperatureStart_def updateDeviceStatus_def logger_def
        Let_def)
  have x: "executed (snd (processGestureStart e s g st)) = executed st"
    using Temperature stored
    by (simp add: processGestureStart_def temperatureStart_def updateDeviceStatus_def logger_def
        Let_def)
  have "\<exists>reqs. updates (snd (processGestureStart e s g st)) = updates st @ reqs
          \<and> (\<forall>r \<in> set reqs. fromStored e prev r)"
    using u r by (rule_tac x = "[?r]" in exI) simp
  then show ?thesis
    using x frame_processGestureStart [of st e s g] by (simp add: effects_def)
next
  case Alarm
  show ?thesis
  proof (cases "vibrating prev")
    case False
    then have "snd (processGestureStart e s g st) = st"
      using Alarm stored by (simp add: processGestureStart_def alarmStart_def vibrating_def)
    then show ?thesis by (simp add: effects_refl)
  next
    case True
    let ?st0 = "logger Info ''[tripleTap] Snoozing active alarm'' st"
    obtain ls c where
      "snd (snoozeAlarmStart e s 10 ?st0) =
         ?st0\<lparr>logs := logs ?st0 @ ls, executed := executed ?st0 @ [c]\<rparr>"
      using snoozeAlarmStart_shape by blast
    moreover have "snd (processGestureStart e s g st) = snd (snoozeAlarmStart e s 10 ?st0)"
      using Alarm stored True by (simp add: processGestureStart_def alarmStart_def vibrating_def)
    ultimately show ?thesis
      using True by (simp add: effects_def frame_def logger_def)
  qed
next
  case Base
  have "updates (snd (baseStart e st)) = updates st"
    and "executed (snd (baseStart e st)) = executed st"
    by (simp_all add: baseStart_def baseMove_def memoryDB_write_def
        trimixBase_def logger_def Let_def split: option.splits)
  then show ?thesis
    using Base frame_baseStart [of st e]
    by (simp add: processGestureStart_def effects_only_logs)
qed

lemma effects_dispatch:
  assumes stored: "deviceStatus st = Some prev"
  shows "effects e prev st (dispatch e s g st)"
proof -
  have "effects e prev st (snd (processGestureStart e s g st))"
    by (rule effects_processGestureStart [OF stored])
  then show ?thesis
    using frame_dispatch [of st e s g]
    by (simp add: effects_def dispatch_def updates_dropped executed_dropped)
qed

lemma effects_gestureLoop:
  "deviceStatus st = Some prev \<Longrightarrow> effects e prev st (gestureLoop e nextDeviceStatus s gs st)"
proof (induction gs arbitrary: st)
  case Nil
  show ?case by (simp add: effects_refl)
next
  case (Cons g gs)
  let ?st1 = "if tapEntry (Some nextDeviceStatus) s g \<noteq> tapEntry (deviceStatus st) s g
              then dispatch e s g st else st"
  have a: "effects e prev st ?st1"
    using effects_dispatch [OF Cons.prems] by (simp add: effects_refl)
  then have "deviceStatus ?st1 = Some prev"
    using Cons.prems effects_frame [OF a] by (simp add: frame_def)
  then have "effects e prev ?st1 (gestureLoop e nextDeviceStatus s gs ?st1)"
    by (rule Cons.IH)
  then show ?case
    using effects_trans [OF a] by simp
qed

lemma effects_processGestures:
  assumes stored: "deviceStatus st = Some prev"
  shows "effects e prev st (processGestures e nextDeviceStatus st)"
proof -
  let ?st1 = "processGesturesForSide e nextDeviceStatus Left st"
  have a: "effects e prev st ?st1"
    unfolding processGesturesForSide_def by (rule effects_gestureLoop [OF stored])
  then have "deviceStatus ?st1 = Some prev"
    using stored effects_frame [OF a] by (simp add: frame_def)
  then have "effects e prev ?st1 (processGesturesForSide e nextDeviceStatus Right ?st1)"
    unfolding processGesturesForSide_def by (rule effects_gestureLoop)
  then show ?thesis
    using stored effects_trans [OF a] by (simp add: processGestures_def)
qed

lemma executed_mono: "effects e prev st st' \<Longrightarrow> length (executed st) \<le> length (executed st')"
  by (auto simp: effects_def)

lemma stored_kept: "effects e prev st st' \<Longrightarrow> deviceStatus st = Some prev \<Longrightarrow> deviceStatus st' = Some prev"
  by (simp add: effects_def frame_def)

lemma executed_grows_dispatch:
  assumes stored: "deviceStatus st = Some prev"
    and alarm: "settings e s g = Alarm" and vib: "vibrating prev"
  shows "length (executed st) < length (executed (dispatch e s g st))"
proof -
  let ?st0 = "logger Info ''[tripleTap] Snoozing active alarm'' st"
  obtain ls c where
    sh: "snd (snoozeAlarmStart e s 10 ?st0) =
           ?st0\<lparr>logs := logs ?st0 @ ls, executed := executed ?st0 @ [c]\<rparr>"
    using snoozeAlarmStart_shape by blast
  have p: "processGestureStart e s g st = snoozeAlarmStart e s 10 ?st0"
    using alarm stored vib by (simp add: processGestureStart_def alarmStart_def vibrating_def)
  have ex: "executed (dispatch e s g st) = executed (snd (snoozeAlarmStart e s 10 ?st0))"
    by (simp add: dispatch_def executed_dropped p)
  show ?thesis
    unfolding ex sh by (simp add: logger_def)
qed

lemma gestureLoop_alarm_fires:
  "deviceStatus st = Some prev \<Longrightarrow> vibrating prev \<Longrightarrow> g \<in> set gs \<Longrightarrow>
   settings e s g = Alarm \<Longrightarrow>
   tapEntry (Some nextDeviceStatus) s g \<noteq> tapEntry (Some prev) s g \<Longrightarrow>
   length (executed st) < length (executed (gestureLoop e nextDeviceStatus s gs st))"
proof (induction gs arbitrary: st)
  case Nil
  then show ?case by simp
next
  case (Cons g' gs)
  let ?st1 = "if tapEntry (Some nextDeviceStatus) s g' \<noteq> tapEntry (deviceStatus st) s g'
              then dispatch e s g' st else st"
  have a: "effects e prev st ?st1"
    using effects_dispatch [OF Cons.prems(1)] by (simp add: effects_refl)
  have d: "deviceStatus ?st1 = Some prev"
    by (rule stored_kept [OF a Cons.prems(1)])
  show ?case
  proof (cases "g = g'")
    case True
    then have "?st1 = dispatch e s g st"
      using Cons.prems by simp
    then have "length (executed st) < length (executed ?st1)"
      using executed_grows_dispatch [OF Cons.prems(1,4,2)] by simp
    moreover have "length (executed ?st1) \<le> length (executed (gestureLoop e nextDeviceStatus s gs ?st1))"
      by (rule executed_mono [OF effects_gestureLoop [OF d]])
    ultimately show ?thesis by simp
  next
    case False
    then have "g \<in> set gs" using Cons.prems(3) by simp
    then have "length (executed ?st1) < length (executed (gestureLoop e nextDeviceStatus s gs ?st1))"
      using Cons.IH [OF d Cons.prems(2) _ Cons.prems(4,5)] by simp
    moreover have "length (executed st) \<le> length (executed ?st1)"
      by (rule executed_mono [OF a])
    ultimately show ?thesis by simp
  qed
qed

lemma processGestures_alarm_fires:
  assumes stored: "deviceStatus st = Some prev" and vib: "vibrating prev"
    and alarm: "settings e s g = Alarm"
    and changed: "tapEntry (Some nextDeviceStatus) s g \<noteq> tapEntry (Some prev) s g"
  shows "length (executed st) < length (executed (processGestures e nextDeviceStatus st))"
proof -
  let ?st1 = "processGesturesForSide e nextDeviceStatus Left st"
  let ?st2 = "processGesturesForSide e nextDeviceStatus Right ?st1"
  have g: "g \<in> set GestureSchema_options"
    by (cases g) (simp_all add: GestureSchema_options_def)
  have a: "effects e prev st ?st1"
    unfolding processGesturesForSide_def by (rule effects_gestureLoop [OF stored])
  have d: "deviceStatus ?st1 = Some prev"
    by (rule stored_kept [OF a stored])
  have b: "effects e prev ?st1 ?st2"
    using effects_gestureLoop [OF d] by (simp add: processGesturesForSide_def)
  have "length (executed st) < length (executed ?st2)"
  proof (cases s)
    case Left
    have "length (executed st) < length (executed ?st1)"
      unfolding processGesturesForSide_def
      using gestureLoop_alarm_fires [OF stored vib g alarm changed] Left by simp
    then show ?thesis using executed_mono [OF b] by simp
  next
    case Right
    have "length (executed ?st1) < length (executed ?st2)"
      using gestureLoop_alarm_fires [OF d vib g alarm changed] Right
      by (simp add: processGesturesForSide_def)
    then show ?thesis using executed_mono [OF a] by simp
  qed
  then show ?thesis
    using stored by (simp add: processGestures_def)
qed

lemma effects_if:
  "deviceStatus st = Some prev \<Longrightarrow>
   effects e prev st (if b then processGestures e nextDeviceStatus st else st)"
  by (cases b) (simp_all add: effects_processGestures effects_refl)

lemma loopStep_ok:
  assumes stored: "deviceStatus st = Some prev" and noStop: "stopAt \<noteq> StopDuringWait"
  shows "loopStep e stopAt (PollOk getDeviceStatus) st =
     (let hg = (coverVersion prev \<noteq> Pod3);
          st1 = st\<lparr>hasGestures := hg, waitTime := (if hg then 2000 else 60000),
                   waits := waits st @ [if hg then 2000 else 60000]\<rparr>;
          st2 = (if hg then processGestures e (getDeviceStatus hg) st1 else st1);
          st3 = st2\<lparr>deviceStatus := Some (getDeviceStatus hg),
                    frankenMonitor := \<lparr>status = Healthy, message = [], timestamp = dateNow e\<rparr>\<rparr>
      in if stopAt = StopLater then st3\<lparr>isRunning := False\<rparr> else st3)"
  using assms by (simp add: loopStep_def loopPass_def Let_def)

text \<open>
  Claim C10. In a pass of the loop that fetches a new snapshot, every update request that
  the pass issues is a temperature step from the target temperature of the snapshot stored
  before the pass; the device channel gets no command when no alarm vibrates in the stored
  snapshot, and gets one when an alarm vibrates in the stored snapshot and a gesture with
  the alarm behaviour has changed. The new snapshot is stored at the end of the pass.
\<close>

theorem pass_reads_stored_snapshot:
  assumes stored: "deviceStatus st = Some prev"
    and noStop: "stopAt \<noteq> StopDuringWait"
    and nextDeviceStatus: "nextDeviceStatus = getDeviceStatus (coverVersion prev \<noteq> Pod3)"
    and st': "st' = loopStep e stopAt (PollOk getDeviceStatus) st"
  shows "(\<exists>reqs. updates st' = updates st @ reqs \<and>
           (\<forall>r \<in> set reqs. \<exists>s g c amount. settings e s g = Temperature c amount \<and>
              r = [(s, [(''targetTemperatureF'',
                   targetTemperatureF (atSide prev s) + (if c = Increment then amount else - amount))])]))
       \<and> (\<not> isAlarmVibrating (left prev) \<and> \<not> isAlarmVibrating (right prev)
            \<longrightarrow> executed st' = executed st)
       \<and> ((isAlarmVibrating (left prev) \<or> isAlarmVibrating (right prev))
            \<and> coverVersion prev \<noteq> Pod3
            \<and> (\<exists>s g. settings e s g = Alarm
                  \<and> tapEntry (Some nextDeviceStatus) s g \<noteq> tapEntry (Some prev) s g)
            \<longrightarrow> executed st' \<noteq> executed st)
       \<and> deviceStatus st' = Some nextDeviceStatus"
proof -
  let ?hg = "coverVersion prev \<noteq> Pod3"
  let ?st1 = "st\<lparr>hasGestures := ?hg, waitTime := (if ?hg then 2000 else 60000),
                   waits := waits st @ [if ?hg then 2000 else 60000]\<rparr>"
  let ?st2 = "if ?hg then processGestures e nextDeviceStatus ?st1 else ?st1"
  have d1: "deviceStatus ?st1 = Some prev" using stored by simp
  have eff: "effects e prev ?st1 ?st2"
    by (rule effects_if [OF d1])
  have u: "updates st' = updates ?st2" and x: "executed st' = executed ?st2"
    and d: "deviceStatus st' = Some nextDeviceStatus"
    unfolding st' loopStep_ok [OF stored noStop] nextDeviceStatus
    by (simp_all add: Let_def)
  from eff obtain reqs where reqs: "updates ?st2 = updates ?st1 @ reqs"
    "\<forall>r \<in> set reqs. fromStored e prev r"
    unfolding effects_def by blast
  from eff obtain cs where cs: "executed ?st2 = executed ?st1 @ cs"
    "\<not> vibrating prev \<longrightarrow> cs = []"
    unfolding effects_def by blast
  have 1: "\<exists>reqs. updates st' = updates st @ reqs \<and>
           (\<forall>r \<in> set reqs. \<exists>s g c amount. settings e s g = Temperature c amount \<and>
              r = [(s, [(''targetTemperatureF'',
                   targetTemperatureF (atSide prev s) + (if c = Increment then amount else - amount))])])"
    using reqs unfolding u fromStored_def by (rule_tac x = reqs in exI) simp
  have 2: "\<not> isAlarmVibrating (left prev) \<and> \<not> isAlarmVibrating (right prev)
            \<longrightarrow> executed st' = executed st"
    using cs unfolding x vibrating_def by simp
  have 3: "(isAlarmVibrating (left prev) \<or> isAlarmVibrating (right prev))
            \<and> coverVersion prev \<noteq> Pod3
            \<and> (\<exists>s g. settings e s g = Alarm
                  \<and> tapEntry (Some nextDeviceStatus) s g \<noteq> tapEntry (Some prev) s g)
            \<longrightarrow> executed st' \<noteq> executed st"
  proof (intro impI, elim conjE exE)
    fix s g
    assume vib: "isAlarmVibrating (left prev) \<or> isAlarmVibrating (right prev)"
      and hg: "coverVersion prev \<noteq> Pod3"
      and alarm: "settings e s g = Alarm"
      and changed: "tapEntry (Some nextDeviceStatus) s g \<noteq> tapEntry (Some prev) s g"
    have "length (executed ?st1) < length (executed (processGestures e nextDeviceStatus ?st1))"
      by (rule processGestures_alarm_fires [OF d1 _ alarm changed])
         (simp add: vibrating_def vib)
    then have "length (executed st) < length (executed st')"
      unfolding x using hg by simp
    then show "executed st' \<noteq> executed st" by auto
  qed
  from 1 2 3 d show ?thesis by blast
qed

theorem pass_reads_stored_snapshot_witness:
  "targetTemperatureF (left exampleNext) = 80
   \<and> isAlarmVibrating (left exampleNext)
   \<and> updates (loopStep exampleEnv NoStop (PollOk (\<lambda>b. exampleNext)) exampleState)
       = [[(Left, [(''targetTemperatureF'', 72)])]]
   \<and> executed (loopStep exampleEnv NoStop (PollOk (\<lambda>b. exampleNext)) exampleState) = []
   \<and> deviceStatus (loopStep exampleEnv NoStop (PollOk (\<lambda>b. exampleNext)) exampleState)
       = Some exampleNext"
proof -
  let ?st' = "loopStep exampleEnv NoStop (PollOk (\<lambda>b. exampleNext)) exampleState"
  have d: "deviceStatus exampleState = Some exampleStatus"
    by (simp add: exampleState_def)
  have n: "NoStop \<noteq> StopDuringWait" by simp
  have quiet: "\<not> isAlarmVibrating (left exampleStatus) \<and> \<not> isAlarmVibrating (right exampleStatus)"
    by (simp add: exampleStatus_def exampleSide_def)
  note a = pass_reads_stored_snapshot [OF d n refl refl,
      where getDeviceStatus = "\<lambda>b. exampleNext" and e = exampleEnv]
  from a quiet have x: "executed ?st' = []"
    by (simp add: exampleState_def)
  from a have s: "deviceStatus ?st' = Some exampleNext"
    by simp
  have u: "updates ?st' = [[(Left, [(''targetTemperatureF'', 72)])]]"
    by (simp add: loopStep_def loopPass_def Let_def exampleState_def exampleStatus_def
        exampleNext_def exampleSide_def exampleEnv_def exampleSettings_def
        processGestures_def processGesturesForSide_def GestureSchema_options_def
        tapEntry_def atSide_def dispatch_def dropped_def processGestureStart_def
        temperatureStart_def alarmStart_def updateDeviceStatus_def logger_def)
  have "targetTemperatureF (left exampleNext) = 80 \<and> isAlarmVibrating (left exampleNext)"
    by (simp add: exampleNext_def)
  with u x s show ?thesis by simp
qed

subsection \<open>The cadence\<close>

lemma waits_effects: "effects e prev st st' \<Longrightarrow> waits st' = waits st \<and> waitTime st' = waitTime st"
  by (simp add: effects_def frame_def)

text \<open>
  Claim C8. A pass of the loop waits 60000 when the stored snapshot reports the version
  without gestures and 2000 for any other version; a pass whose poll fails waits the same
  time once more. After a pass that fetched a snapshot, that snapshot is the stored one, so
  the next pass derives its wait from it.
\<close>

theorem cadence_rederived_each_pass:
  assumes stored: "deviceStatus st = Some ds"
    and w: "w = (if coverVersion ds = Pod3 then 60000 else 2000)"
  shows "waits (loopStep e stopAt p st) =
           waits st @ (if stopAt \<noteq> StopDuringWait \<and> (\<exists>msg. p = PollFailed msg)
                       then [w, w] else [w])
       \<and> waitTime (loopStep e stopAt p st) = w
       \<and> (stopAt \<noteq> StopDuringWait \<longrightarrow>
            (\<forall>getDeviceStatus. p = PollOk getDeviceStatus \<longrightarrow>
               deviceStatus (loopStep e stopAt p st) =
                 Some (getDeviceStatus (coverVersion ds \<noteq> Pod3))))"
proof (cases "stopAt = StopDuringWait")
  case True
  then show ?thesis
    using stored w by (simp add: loopStep_def loopPass_def Let_def)
next
  case noStop: False
  show ?thesis
  proof (cases p)
    case (PollFailed msg)
    then show ?thesis
      using stored w noStop
      by (simp add: loopStep_def loopPass_def loopCatch_def logger_def Let_def)
  next
    case (PollOk getDeviceStatus)
    let ?hg = "coverVersion ds \<noteq> Pod3"
    let ?st1 = "st\<lparr>hasGestures := ?hg, waitTime := (if ?hg then 2000 else 60000),
                   waits := waits st @ [if ?hg then 2000 else 60000]\<rparr>"
    let ?st2 = "if ?hg then processGestures e (getDeviceStatus ?hg) ?st1 else ?st1"
    have d1: "deviceStatus ?st1 = Some ds" using stored by simp
    have k: "waits ?st2 = waits ?st1 \<and> waitTime ?st2 = waitTime ?st1"
      by (rule waits_effects [OF effects_if [OF d1]])
    have "waits (loopStep e stopAt p st) = waits ?st2"
      and "waitTime (loopStep e stopAt p st) = waitTime ?st2"
      and "deviceStatus (loopStep e stopAt p st) = Some (getDeviceStatus ?hg)"
      unfolding PollOk loopStep_ok [OF stored noStop] by (simp_all add: Let_def)
    then show ?thesis
      using k w noStop PollOk by simp
  qed
qed

theorem cadence_rederived_each_pass_witness:
  "waits (loopStep exampleEnv NoStop (PollOk (\<lambda>b. examplePod3)) exampleState) = [2000]
   \<and> waits (loopStep exampleEnv NoStop (PollFailed ''disconnected'')
        (loopStep exampleEnv NoStop (PollOk (\<lambda>b. examplePod3)) exampleState))
      = [2000, 60000, 60000]"
proof -
  let ?st1 = "loopStep exampleEnv NoStop (PollOk (\<lambda>b. examplePod3)) exampleState"
  have d: "deviceStatus exampleState = Some exampleStatus"
    by (simp add: exampleState_def)
  have w: "(2000::int) = (if coverVersion exampleStatus = Pod3 then 60000 else 2000)"
    by (simp add: exampleStatus_def)
  note a = cadence_rederived_each_pass [OF d w, of exampleEnv NoStop "PollOk (\<lambda>b. examplePod3)"]
  from a have w1: "waits ?st1 = [2000]"
    by (simp add: exampleState_def)
  from a have d1: "deviceStatus ?st1 = Some examplePod3"
    by simp
  have w': "(60000::int) = (if coverVersion examplePod3 = Pod3 then 60000 else 2000)"
    by (simp add: examplePod3_def)
  from cadence_rederived_each_pass [OF d1 w', of exampleEnv NoStop "PollFailed ''disconnected''"]
  have "waits (loopStep exampleEnv NoStop (PollFailed ''disconnected'') ?st1) = [2000, 60000, 60000]"
    by (simp add: w1)
  with w1 show ?thesis by simp
qed

end
